theory Spec2Isabelle
  imports Main
begin

section \<open>Data model\<close>

text \<open>
  The application is a client of a relational store with row-level security.  The
  schema, constraints and policies are the SQL migrations of the repository; the
  operations are the client functions that issue the queries.

  Identifiers (\<open>uuid\<close>), dates, times of day and timestamps are opaque values that
  the code only compares for equality or order; they are represented by natural
  numbers.  Monetary values are \<open>numeric(10, 2)\<close> columns; they are represented as an
  integer number of cents, on which the additions of the client are exact.  Text
  columns that no operation below reads (notes, cancellation reason) are left out of
  the rows.
\<close>

type_synonym uuid = nat
type_synonym date = nat
type_synonym time = nat
type_synonym timestamp = nat
type_synonym money = int

text \<open>
  A \<open>numeric(10, 2)\<close> column holds ten digits, two of them after the point: absolute
  values below 100,000,000.00.  A value outside that range is refused with a numeric
  overflow when the row that carries it is built.
\<close>

definition numeric_10_2 :: "money \<Rightarrow> bool" where
  "numeric_10_2 x = (- 10000000000 < x \<and> x < 10000000000)"

datatype user_role = super_admin | user

datatype appointment_status = scheduled | confirmed | completed | cancelled

record profile =
  p_id :: uuid
  p_email :: string
  p_full_name :: string
  p_role :: user_role
  p_is_active :: bool

record appointment =
  a_id :: uuid
  a_patient_id :: uuid
  a_procedure_id :: uuid
  a_professional_id :: uuid
  a_appointment_date :: date
  a_appointment_time :: time
  a_status :: appointment_status
  a_created_by :: "uuid option"

record closing =
  c_id :: uuid
  c_professional_id :: uuid
  c_closing_date :: date
  total_amount :: money
  is_finalized :: bool
  finalized_at :: "timestamp option"

record cash_transaction =
  t_id :: uuid
  t_closing_id :: uuid
  t_appointment_id :: "uuid option"
  t_amount :: money
  t_payment_method :: string
  t_created_at :: timestamp

text \<open>
  The store: one list of rows per table, in insertion order.  Of the tables
  \<open>patients\<close> and \<open>procedures\<close> only the primary keys are kept, for the foreign
  keys of \<open>appointments\<close>.
\<close>

record database =
  profiles :: "profile list"
  patients :: "uuid list"
  procedures :: "uuid list"
  appointments :: "appointment list"
  closings :: "closing list"
  transactions :: "cash_transaction list"

definition empty_database :: database where
  "empty_database =
     \<lparr>profiles = [], patients = [], procedures = [], appointments = [],
      closings = [], transactions = []\<rparr>"

text \<open>
  What a request can come back with: the constraint errors of the store, the error of
  the authentication provider, and the refusals that the client raises itself.
\<close>

datatype error =
    NumericOverflow
  | RlsViolation
  | UniqueViolation
  | ForeignKeyViolation
  | CheckViolation
  | AuthError
  | SlotConflict
  | DuplicateClosing
  | ControlNotRendered

section \<open>Row-level security\<close>

text \<open>
  A request runs as \<open>anon\<close> (no session, \<open>auth.uid()\<close> is null) or as
  \<open>authenticated\<close> with the identity of the session.
\<close>

type_synonym caller = "uuid option"

datatype db_role = anon | authenticated

datatype command = FOR_SELECT | FOR_INSERT | FOR_UPDATE | FOR_DELETE | FOR_ALL

fun role_of :: "caller \<Rightarrow> db_role" where
  "role_of None = anon"
| "role_of (Some _) = authenticated"

text \<open>
  \<open>CREATE POLICY name ON table FOR cmd TO roles USING (...) WITH CHECK (...)\<close>.
  Both expressions may read other tables and \<open>auth.uid()\<close>.
\<close>

record 'r policy =
  pol_name :: string
  pol_cmd :: command
  pol_to :: "db_role list"
  pol_using :: "(database \<Rightarrow> caller \<Rightarrow> 'r \<Rightarrow> bool) option"
  pol_with_check :: "(database \<Rightarrow> caller \<Rightarrow> 'r \<Rightarrow> bool) option"

definition applies :: "command \<Rightarrow> caller \<Rightarrow> 'r policy \<Rightarrow> bool" where
  "applies cmd u p = ((pol_cmd p = cmd \<or> pol_cmd p = FOR_ALL) \<and> role_of u \<in> set (pol_to p))"

definition using_expr :: "'r policy \<Rightarrow> database \<Rightarrow> caller \<Rightarrow> 'r \<Rightarrow> bool" where
  "using_expr p db u r = (case pol_using p of None \<Rightarrow> True | Some f \<Rightarrow> f db u r)"

text \<open>A policy without \<open>WITH CHECK\<close> checks new rows with its \<open>USING\<close> expression.\<close>

definition check_expr :: "'r policy \<Rightarrow> database \<Rightarrow> caller \<Rightarrow> 'r \<Rightarrow> bool" where
  "check_expr p db u r =
     (case pol_with_check p of None \<Rightarrow> using_expr p db u r | Some f \<Rightarrow> f db u r)"

text \<open>
  With row-level security enabled on a table, a row is reached by a command when some
  policy for that command and role accepts it; with no such policy, no row is.
\<close>

definition rls_using :: "'r policy list \<Rightarrow> command \<Rightarrow> database \<Rightarrow> caller \<Rightarrow> 'r \<Rightarrow> bool" where
  "rls_using ps cmd db u r = list_ex (\<lambda>p. applies cmd u p \<and> using_expr p db u r) ps"

definition rls_check :: "'r policy list \<Rightarrow> command \<Rightarrow> database \<Rightarrow> caller \<Rightarrow> 'r \<Rightarrow> bool" where
  "rls_check ps cmd db u r = list_ex (\<lambda>p. applies cmd u p \<and> check_expr p db u r) ps"

text \<open>\<open>select\<close>: the rows that a \<open>SELECT\<close> policy shows and that match the filter.\<close>

definition rls_select ::
  "'r policy list \<Rightarrow> database \<Rightarrow> caller \<Rightarrow> ('r \<Rightarrow> bool) \<Rightarrow> 'r list \<Rightarrow> 'r list" where
  "rls_select ps db u cond rows = filter (\<lambda>r. rls_using ps FOR_SELECT db u r \<and> cond r) rows"

text \<open>
  \<open>update ... where cond\<close>: the rows that match, are visible and pass an \<open>UPDATE\<close>
  policy are rewritten.  The statement is aborted, and nothing is written, when the
  values assigned to a rewritten row do not fit their columns (\<open>fits\<close>, tested as the
  row is built) or when a rewritten row fails every \<open>WITH CHECK\<close>.  Rows that the
  policies hide are skipped without an error.
\<close>

definition rls_update ::
  "'r policy list \<Rightarrow> database \<Rightarrow> caller \<Rightarrow> ('r \<Rightarrow> bool) \<Rightarrow> ('r \<Rightarrow> 'r) \<Rightarrow> ('r \<Rightarrow> bool) \<Rightarrow> 'r list
     \<Rightarrow> error + 'r list" where
  "rls_update ps db u cond f fits rows =
     (let target = (\<lambda>r. cond r \<and> rls_using ps FOR_SELECT db u r \<and> rls_using ps FOR_UPDATE db u r) in
      if list_ex (\<lambda>r. target r \<and> \<not> fits (f r)) rows
      then Inl NumericOverflow
      else if list_ex (\<lambda>r. target r \<and> \<not> rls_check ps FOR_UPDATE db u (f r)) rows
      then Inl RlsViolation
      else Inr (map (\<lambda>r. if target r then f r else r) rows))"

text \<open>\<open>delete ... where cond\<close>: the rows that match, are visible and pass a \<open>DELETE\<close> policy go.\<close>

definition rls_delete ::
  "'r policy list \<Rightarrow> database \<Rightarrow> caller \<Rightarrow> ('r \<Rightarrow> bool) \<Rightarrow> 'r list \<Rightarrow> 'r list" where
  "rls_delete ps db u cond rows =
     filter (\<lambda>r. \<not> (cond r \<and> rls_using ps FOR_SELECT db u r \<and> rls_using ps FOR_DELETE db u r)) rows"

subsection \<open>The policies of the migrations\<close>

text \<open>
  \<open>EXISTS (SELECT 1 FROM profiles WHERE profiles.id = auth.uid() AND profiles.role =
  'super_admin')\<close>, the expression of every super-admin policy.
\<close>

definition is_super_admin :: "database \<Rightarrow> caller \<Rightarrow> bool" where
  "is_super_admin db u =
     list_ex (\<lambda>p. Some (p_id p) = u \<and> p_role p = super_admin) (profiles db)"

text \<open>
  \<open>profiles\<close>, after the migration that replaces the recursive policies of the initial
  schema (its \<open>DROP POLICY\<close> statements name the five policies that the initial schema
  creates).
\<close>

definition profiles_policies :: "profile policy list" where
  "profiles_policies =
     [\<lparr>pol_name = ''Enable read access for authenticated users'', pol_cmd = FOR_SELECT,
       pol_to = [authenticated],
       pol_using = Some (\<lambda>db u r. True), pol_with_check = None\<rparr>,
      \<lparr>pol_name = ''Enable insert during signup'', pol_cmd = FOR_INSERT,
       pol_to = [anon, authenticated],
       pol_using = None, pol_with_check = Some (\<lambda>db u r. True)\<rparr>,
      \<lparr>pol_name = ''Enable update for own profile'', pol_cmd = FOR_UPDATE,
       pol_to = [authenticated],
       pol_using = Some (\<lambda>db u r. u = Some (p_id r)),
       pol_with_check = Some (\<lambda>db u r. u = Some (p_id r))\<rparr>]"

definition appointments_policies :: "appointment policy list" where
  "appointments_policies =
     [\<lparr>pol_name = ''Users can view own appointments'', pol_cmd = FOR_SELECT,
       pol_to = [authenticated],
       pol_using = Some (\<lambda>db u r. Some (a_professional_id r) = u), pol_with_check = None\<rparr>,
      \<lparr>pol_name = ''Super admins can view all appointments'', pol_cmd = FOR_SELECT,
       pol_to = [authenticated],
       pol_using = Some (\<lambda>db u r. is_super_admin db u), pol_with_check = None\<rparr>,
      \<lparr>pol_name = ''Users can create own appointments'', pol_cmd = FOR_INSERT,
       pol_to = [authenticated],
       pol_using = None,
       pol_with_check = Some (\<lambda>db u r. Some (a_professional_id r) = u \<and> a_created_by r = u)\<rparr>,
      \<lparr>pol_name = ''Super admins can create any appointment'', pol_cmd = FOR_INSERT,
       pol_to = [authenticated],
       pol_using = None, pol_with_check = Some (\<lambda>db u r. is_super_admin db u)\<rparr>,
      \<lparr>pol_name = ''Users can update own appointments'', pol_cmd = FOR_UPDATE,
       pol_to = [authenticated],
       pol_using = Some (\<lambda>db u r. Some (a_professional_id r) = u),
       pol_with_check = Some (\<lambda>db u r. Some (a_professional_id r) = u)\<rparr>,
      \<lparr>pol_name = ''Super admins can update any appointment'', pol_cmd = FOR_UPDATE,
       pol_to = [authenticated],
       pol_using = Some (\<lambda>db u r. is_super_admin db u), pol_with_check = None\<rparr>]"

definition closings_policies :: "closing policy list" where
  "closings_policies =
     [\<lparr>pol_name = ''Users can view own closings'', pol_cmd = FOR_SELECT,
       pol_to = [authenticated],
       pol_using = Some (\<lambda>db u r. Some (c_professional_id r) = u), pol_with_check = None\<rparr>,
      \<lparr>pol_name = ''Super admins can view all closings'', pol_cmd = FOR_SELECT,
       pol_to = [authenticated],
       pol_using = Some (\<lambda>db u r. is_super_admin db u), pol_with_check = None\<rparr>,
      \<lparr>pol_name = ''Users can create own closings'', pol_cmd = FOR_INSERT,
       pol_to = [authenticated],
       pol_using = None, pol_with_check = Some (\<lambda>db u r. Some (c_professional_id r) = u)\<rparr>,
      \<lparr>pol_name = ''Users can update own non-finalized closings'', pol_cmd = FOR_UPDATE,
       pol_to = [authenticated],
       pol_using = Some (\<lambda>db u r. Some (c_professional_id r) = u \<and> is_finalized r = False),
       pol_with_check = Some (\<lambda>db u r. Some (c_professional_id r) = u)\<rparr>,
      \<lparr>pol_name = ''Super admins can update any closing'', pol_cmd = FOR_UPDATE,
       pol_to = [authenticated],
       pol_using = Some (\<lambda>db u r. is_super_admin db u), pol_with_check = None\<rparr>]"

text \<open>
  The two user policies of \<open>cash_register_transactions\<close> look the parent closing up;
  that subquery runs under the policies of \<open>cash_register_closings\<close>.
\<close>

definition transactions_policies :: "cash_transaction policy list" where
  "transactions_policies =
     [\<lparr>pol_name = ''Users can view own transactions'', pol_cmd = FOR_SELECT,
       pol_to = [authenticated],
       pol_using = Some (\<lambda>db u r.
         rls_select closings_policies db u
           (\<lambda>c. c_id c = t_closing_id r \<and> Some (c_professional_id c) = u) (closings db) \<noteq> []),
       pol_with_check = None\<rparr>,
      \<lparr>pol_name = ''Super admins can view all transactions'', pol_cmd = FOR_SELECT,
       pol_to = [authenticated],
       pol_using = Some (\<lambda>db u r. is_super_admin db u), pol_with_check = None\<rparr>,
      \<lparr>pol_name = ''Users can create own transactions'', pol_cmd = FOR_INSERT,
       pol_to = [authenticated],
       pol_using = None,
       pol_with_check = Some (\<lambda>db u r.
         rls_select closings_policies db u
           (\<lambda>c. c_id c = t_closing_id r \<and> Some (c_professional_id c) = u
                \<and> is_finalized c = False) (closings db) \<noteq> [])\<rparr>,
      \<lparr>pol_name = ''Super admins can create any transaction'', pol_cmd = FOR_INSERT,
       pol_to = [authenticated],
       pol_using = None, pol_with_check = Some (\<lambda>db u r. is_super_admin db u)\<rparr>]"

section \<open>Requests on the cash-register tables\<close>

text \<open>
  \<open>insert\<close> into \<open>cash_register_transactions\<close>: the range of \<open>amount\<close> as the row
  is built, the policy check, then \<open>CHECK (amount >= 0)\<close>, the primary key, and the
  foreign keys to the closing and to the optional appointment.
\<close>

definition insert_transaction :: "caller \<Rightarrow> database \<Rightarrow> cash_transaction \<Rightarrow> error + database" where
  "insert_transaction u db t =
     (if \<not> numeric_10_2 (t_amount t) then Inl NumericOverflow
      else if \<not> rls_check transactions_policies FOR_INSERT db u t then Inl RlsViolation
      else if t_amount t < 0 then Inl CheckViolation
      else if t_id t \<in> set (map t_id (transactions db)) then Inl UniqueViolation
      else if t_closing_id t \<notin> set (map c_id (closings db)) then Inl ForeignKeyViolation
      else if (case t_appointment_id t of None \<Rightarrow> False
               | Some a \<Rightarrow> a \<notin> set (map a_id (appointments db)))
      then Inl ForeignKeyViolation
      else Inr (db\<lparr>transactions := transactions db @ [t]\<rparr>))"

definition select_transactions ::
  "caller \<Rightarrow> database \<Rightarrow> (cash_transaction \<Rightarrow> bool) \<Rightarrow> cash_transaction list" where
  "select_transactions u db cond = rls_select transactions_policies db u cond (transactions db)"

text \<open>
  \<open>update\<close> of \<open>cash_register_closings\<close>; \<open>fits\<close> is the range of the columns that the
  statement assigns.
\<close>

definition update_closings ::
  "caller \<Rightarrow> database \<Rightarrow> (closing \<Rightarrow> bool) \<Rightarrow> (closing \<Rightarrow> closing) \<Rightarrow> (closing \<Rightarrow> bool)
     \<Rightarrow> error + database" where
  "update_closings u db cond f fits =
     (case rls_update closings_policies db u cond f fits (closings db) of
        Inl e \<Rightarrow> Inl e
      | Inr rows \<Rightarrow> Inr (db\<lparr>closings := rows\<rparr>))"

definition delete_transactions ::
  "caller \<Rightarrow> database \<Rightarrow> (cash_transaction \<Rightarrow> bool) \<Rightarrow> database" where
  "delete_transactions u db cond =
     db\<lparr>transactions := rls_delete transactions_policies db u cond (transactions db)\<rparr>"

text \<open>
  The sum of the amounts of the transactions stored for a closing: what the
  specification calls the exact total.
\<close>

definition stored_total :: "database \<Rightarrow> uuid \<Rightarrow> money" where
  "stored_total db cid = sum_list (map t_amount (filter (\<lambda>t. t_closing_id t = cid) (transactions db)))"

text \<open>The row that \<open>.eq('id', cid)\<close> addresses.\<close>

definition closing_by_id :: "database \<Rightarrow> uuid \<Rightarrow> closing option" where
  "closing_by_id db cid = find (\<lambda>c. c_id c = cid) (closings db)"

section \<open>The cash-register page\<close>

text \<open>
  \<open>AddTransactionModal.handleSubmit\<close>: insert the transaction, read back the amounts
  of the closing, add them up together with the amount of the form, and write the
  result to \<open>total_amount\<close>.  The result is the error shown to the user, if any, and
  the store as the requests left it (a failure of the last request leaves the
  inserted row in).
\<close>

definition AddTransactionModal_handleSubmit ::
  "caller \<Rightarrow> database \<Rightarrow> uuid \<Rightarrow> timestamp \<Rightarrow> uuid \<Rightarrow> uuid option \<Rightarrow> money \<Rightarrow> string
     \<Rightarrow> error option \<times> database" where
  "AddTransactionModal_handleSubmit u db new_id now closingId appointmentId amount paymentMethod =
     (case insert_transaction u db
             \<lparr>t_id = new_id, t_closing_id = closingId, t_appointment_id = appointmentId,
              t_amount = amount, t_payment_method = paymentMethod, t_created_at = now\<rparr> of
        Inl transactionError \<Rightarrow> (Some transactionError, db)
      | Inr db1 \<Rightarrow>
          (let rows = select_transactions u db1 (\<lambda>t. t_closing_id t = closingId);
               total = foldl (\<lambda>sum t. sum + t_amount t) 0 rows + amount
           in case update_closings u db1 (\<lambda>c. c_id c = closingId) (\<lambda>c. c\<lparr>total_amount := total\<rparr>)
                     (\<lambda>c. numeric_10_2 (total_amount c)) of
                Inl updateError \<Rightarrow> (Some updateError, db1)
              | Inr db2 \<Rightarrow> (None, db2)))"

text \<open>
  \<open>TransactionsModal\<close>: the \<open>closing\<close> it was opened with and the list of
  transactions it last loaded.
\<close>

record transactions_modal =
  m_closing :: closing
  m_transactions :: "cash_transaction list"

text \<open>
  \<open>loadTransactions\<close>: the transactions of the closing, newest first.  The query
  orders by \<open>created_at\<close> alone; rows of equal \<open>created_at\<close> come in insertion order.
\<close>

definition loadTransactions :: "caller \<Rightarrow> database \<Rightarrow> closing \<Rightarrow> cash_transaction list" where
  "loadTransactions u db c =
     rev (sort_key t_created_at
            (rev (select_transactions u db (\<lambda>t. t_closing_id t = c_id c))))"

text \<open>
  \<open>updateTotal\<close>: adds up the loaded list without the rows whose id is that of its
  first element (\<open>transactions[0]?.id\<close>, undefined on an empty list) and writes the
  result; the outcome of the request is not looked at.
\<close>

definition updateTotal :: "caller \<Rightarrow> database \<Rightarrow> transactions_modal \<Rightarrow> database" where
  "updateTotal u db m =
     (let first_id = (case m_transactions m of [] \<Rightarrow> None | t # _ \<Rightarrow> Some (t_id t));
          total = foldl (\<lambda>sum t. sum + t_amount t) 0
                    (filter (\<lambda>t. Some (t_id t) \<noteq> first_id) (m_transactions m))
      in case update_closings u db (\<lambda>c. c_id c = c_id (m_closing m))
                (\<lambda>c. c\<lparr>total_amount := total\<rparr>) (\<lambda>c. numeric_10_2 (total_amount c)) of
           Inl _ \<Rightarrow> db
         | Inr db' \<Rightarrow> db')"

text \<open>
  \<open>deleteTransaction\<close>: after the confirmation dialog, the delete request, then
  \<open>updateTotal\<close>.  The delete request of this store reports no error.  The reload of
  the list that follows is \<open>loadTransactions\<close> on the resulting store.
\<close>

definition deleteTransaction ::
  "caller \<Rightarrow> database \<Rightarrow> transactions_modal \<Rightarrow> bool \<Rightarrow> uuid \<Rightarrow> error option \<times> database" where
  "deleteTransaction u db m confirm transactionId =
     (if \<not> confirm then (None, db)
      else (let db1 = delete_transactions u db (\<lambda>t. t_id t = transactionId)
            in (None, updateTotal u db1 m)))"

definition finalizeClosing ::
  "caller \<Rightarrow> database \<Rightarrow> transactions_modal \<Rightarrow> bool \<Rightarrow> timestamp \<Rightarrow> error option \<times> database" where
  "finalizeClosing u db m confirm now =
     (if \<not> confirm then (None, db)
      else case update_closings u db (\<lambda>c. c_id c = c_id (m_closing m))
                  (\<lambda>c. c\<lparr>is_finalized := True, finalized_at := Some now\<rparr>) (\<lambda>c. True) of
             Inl e \<Rightarrow> (Some e, db)
           | Inr db' \<Rightarrow> (None, db'))"

text \<open>
  What the modal renders: the button that opens the add form, the form itself and the
  delete button of each listed transaction are all under \<open>!closing.is_finalized\<close>.
  A control that is not rendered cannot start its request.
\<close>

definition click_add_transaction ::
  "caller \<Rightarrow> database \<Rightarrow> transactions_modal \<Rightarrow> uuid \<Rightarrow> timestamp \<Rightarrow> uuid option \<Rightarrow> money \<Rightarrow> string
     \<Rightarrow> error option \<times> database" where
  "click_add_transaction u db m new_id now appointmentId amount paymentMethod =
     (if is_finalized (m_closing m) then (Some ControlNotRendered, db)
      else AddTransactionModal_handleSubmit u db new_id now (c_id (m_closing m))
             appointmentId amount paymentMethod)"

definition click_delete_transaction ::
  "caller \<Rightarrow> database \<Rightarrow> transactions_modal \<Rightarrow> bool \<Rightarrow> uuid \<Rightarrow> error option \<times> database" where
  "click_delete_transaction u db m confirm transactionId =
     (if is_finalized (m_closing m) \<or> transactionId \<notin> set (map t_id (m_transactions m))
      then (Some ControlNotRendered, db)
      else deleteTransaction u db m confirm transactionId)"

text \<open>
  \<open>insert\<close> into \<open>cash_register_closings\<close>: the policy check, the primary key and
  \<open>UNIQUE (professional_id, closing_date)\<close>, the foreign key to \<open>profiles\<close>.
\<close>

definition insert_closing :: "caller \<Rightarrow> database \<Rightarrow> closing \<Rightarrow> error + database" where
  "insert_closing u db c =
     (if \<not> rls_check closings_policies FOR_INSERT db u c then Inl RlsViolation
      else if c_id c \<in> set (map c_id (closings db))
              \<or> (c_professional_id c, c_closing_date c)
                  \<in> set (map (\<lambda>x. (c_professional_id x, c_closing_date x)) (closings db))
      then Inl UniqueViolation
      else if c_professional_id c \<notin> set (map p_id (profiles db)) then Inl ForeignKeyViolation
      else Inr (db\<lparr>closings := closings db @ [c]\<rparr>))"

definition select_closings :: "caller \<Rightarrow> database \<Rightarrow> (closing \<Rightarrow> bool) \<Rightarrow> closing list" where
  "select_closings u db cond = rls_select closings_policies db u cond (closings db)"

text \<open>\<open>.maybeSingle()\<close>: the row when exactly one comes back, null otherwise.\<close>

definition maybeSingle :: "'a list \<Rightarrow> 'a option" where
  "maybeSingle rows = (case rows of [r] \<Rightarrow> Some r | _ \<Rightarrow> None)"

text \<open>
  \<open>createClosing\<close>, for the signed-in user (the page is rendered only with one) and
  today's date: look for the user's closing of today; if there is one, tell the user
  and stop; otherwise insert one with \<open>total_amount: 0\<close> and the column defaults
  \<open>is_finalized = false\<close>, \<open>finalized_at = NULL\<close>.
\<close>

definition createClosing :: "uuid \<Rightarrow> database \<Rightarrow> uuid \<Rightarrow> date \<Rightarrow> error option \<times> database" where
  "createClosing uid db new_id today =
     (case maybeSingle (map c_id (select_closings (Some uid) db
               (\<lambda>c. c_professional_id c = uid \<and> c_closing_date c = today))) of
        Some existing \<Rightarrow> (Some DuplicateClosing, db)
      | None \<Rightarrow>
          (case insert_closing (Some uid) db
                  \<lparr>c_id = new_id, c_professional_id = uid, c_closing_date = today,
                   total_amount = 0, is_finalized = False, finalized_at = None\<rparr> of
             Inl e \<Rightarrow> (Some e, db)
           | Inr db' \<Rightarrow> (None, db')))"

section \<open>The agenda page\<close>

definition slot :: "appointment \<Rightarrow> uuid \<times> date \<times> time" where
  "slot a = (a_professional_id a, a_appointment_date a, a_appointment_time a)"

definition select_appointments ::
  "caller \<Rightarrow> database \<Rightarrow> (appointment \<Rightarrow> bool) \<Rightarrow> appointment list" where
  "select_appointments u db cond = rls_select appointments_policies db u cond (appointments db)"

text \<open>
  \<open>insert\<close> into \<open>appointments\<close>: the policy check, the primary key and
  \<open>UNIQUE (professional_id, appointment_date, appointment_time)\<close>, the foreign keys.
\<close>

definition insert_appointment :: "caller \<Rightarrow> database \<Rightarrow> appointment \<Rightarrow> error + database" where
  "insert_appointment u db a =
     (if \<not> rls_check appointments_policies FOR_INSERT db u a then Inl RlsViolation
      else if a_id a \<in> set (map a_id (appointments db))
              \<or> slot a \<in> set (map slot (appointments db))
      then Inl UniqueViolation
      else if a_patient_id a \<notin> set (patients db) \<or> a_procedure_id a \<notin> set (procedures db)
              \<or> a_professional_id a \<notin> set (map p_id (profiles db))
              \<or> (case a_created_by a of None \<Rightarrow> False
                  | Some c \<Rightarrow> c \<notin> set (map p_id (profiles db)))
      then Inl ForeignKeyViolation
      else Inr (db\<lparr>appointments := appointments db @ [a]\<rparr>))"

definition update_appointments ::
  "caller \<Rightarrow> database \<Rightarrow> (appointment \<Rightarrow> bool) \<Rightarrow> (appointment \<Rightarrow> appointment) \<Rightarrow> error + database" where
  "update_appointments u db cond f =
     (case rls_update appointments_policies db u cond f (\<lambda>a. True) (appointments db) of
        Inl e \<Rightarrow> Inl e
      | Inr rows \<Rightarrow> Inr (db\<lparr>appointments := rows\<rparr>))"

text \<open>The fields of \<open>CreateAppointmentModal\<close>; the form requires all of them.\<close>

record appointment_form =
  patientId :: uuid
  procedureId :: uuid
  professionalId :: uuid
  appointmentDate :: date
  appointmentTime :: time

text \<open>
  \<open>checkConflict\<close>, run whenever a field changes: is there an appointment of that
  professional at that date and time whose status is not \<open>cancelled\<close>?
\<close>

definition checkConflict :: "caller \<Rightarrow> database \<Rightarrow> appointment_form \<Rightarrow> bool" where
  "checkConflict u db f =
     (select_appointments u db
        (\<lambda>a. a_professional_id a = professionalId f
            \<and> a_appointment_date a = appointmentDate f
            \<and> a_appointment_time a = appointmentTime f
            \<and> a_status a \<noteq> cancelled) \<noteq> [])"

text \<open>
  \<open>CreateAppointmentModal.handleSubmit\<close>, for the signed-in user and the value of the
  \<open>conflict\<close> flag at the time of the submit.
\<close>

definition CreateAppointmentModal_handleSubmit ::
  "uuid \<Rightarrow> database \<Rightarrow> uuid \<Rightarrow> bool \<Rightarrow> appointment_form \<Rightarrow> error option \<times> database" where
  "CreateAppointmentModal_handleSubmit uid db new_id conflict f =
     (if conflict then (Some SlotConflict, db)
      else case insert_appointment (Some uid) db
                  \<lparr>a_id = new_id, a_patient_id = patientId f, a_procedure_id = procedureId f,
                   a_professional_id = professionalId f,
                   a_appointment_date = appointmentDate f,
                   a_appointment_time = appointmentTime f,
                   a_status = scheduled, a_created_by = Some uid\<rparr> of
             Inl insertError \<Rightarrow> (Some insertError, db)
           | Inr db' \<Rightarrow> (None, db'))"

text \<open>The submit that follows an up-to-date conflict check.\<close>

definition create_appointment ::
  "uuid \<Rightarrow> database \<Rightarrow> uuid \<Rightarrow> appointment_form \<Rightarrow> error option \<times> database" where
  "create_appointment uid db new_id f =
     CreateAppointmentModal_handleSubmit uid db new_id (checkConflict (Some uid) db f) f"

text \<open>
  \<open>AppointmentDetailsModal.updateStatus\<close>: writes the new status to the row with the
  id of the appointment that the modal shows.
\<close>

definition updateStatus ::
  "caller \<Rightarrow> database \<Rightarrow> appointment \<Rightarrow> appointment_status \<Rightarrow> error option \<times> database" where
  "updateStatus u db appointment newStatus =
     (case update_appointments u db (\<lambda>a. a_id a = a_id appointment)
             (\<lambda>a. a\<lparr>a_status := newStatus\<rparr>) of
        Inl e \<Rightarrow> (Some e, db)
      | Inr db' \<Rightarrow> (None, db'))"

text \<open>
  The status buttons that the modal renders for the appointment it shows, each named
  by the status it passes to \<open>updateStatus\<close>.
\<close>

definition status_buttons :: "appointment \<Rightarrow> appointment_status list" where
  "status_buttons appointment =
     (if a_status appointment \<noteq> confirmed \<and> a_status appointment \<noteq> completed
         \<and> a_status appointment \<noteq> cancelled then [confirmed] else [])
     @ (if a_status appointment \<noteq> completed \<and> a_status appointment \<noteq> cancelled
        then [completed] else [])
     @ (if a_status appointment \<noteq> cancelled \<and> a_status appointment \<noteq> completed
        then [cancelled] else [])"

definition click_status_button ::
  "caller \<Rightarrow> database \<Rightarrow> appointment \<Rightarrow> appointment_status \<Rightarrow> error option \<times> database" where
  "click_status_button u db appointment newStatus =
     (if newStatus \<in> set (status_buttons appointment)
      then updateStatus u db appointment newStatus
      else (Some ControlNotRendered, db))"

section \<open>Sign-up\<close>

text \<open>
  The answer of the authentication provider to \<open>supabase.auth.signUp\<close>: an error, or
  the new user (possibly null) and whether a session came with it.  Where sign-ups
  wait for the confirmation e-mail (the call passes \<open>emailRedirectTo\<close> for it), no
  session comes back and the requests that follow run as \<open>anon\<close>; the insert policy
  of \<open>profiles\<close> is written for both roles.
\<close>

datatype auth_response = SignUpFailed | SignedUp "uuid option" bool

text \<open>
  \<open>insert\<close> into \<open>profiles\<close>: the policy check, the primary key and
  \<open>UNIQUE (email)\<close>.  The foreign key to the provider's user table holds for the id
  that the provider has just returned.
\<close>

definition insert_profile :: "caller \<Rightarrow> database \<Rightarrow> profile \<Rightarrow> error + database" where
  "insert_profile u db p =
     (if \<not> rls_check profiles_policies FOR_INSERT db u p then Inl RlsViolation
      else if p_id p \<in> set (map p_id (profiles db)) \<or> p_email p \<in> set (map p_email (profiles db))
      then Inl UniqueViolation
      else Inr (db\<lparr>profiles := profiles db @ [p]\<rparr>))"

text \<open>
  \<open>AuthProvider.signUp\<close>: after the provider's sign-up, count the profiles
  (\<open>count: 'exact', head: true\<close>), and insert the profile of the new user with role
  \<open>super_admin\<close> if the count is 0 and \<open>user\<close> otherwise.
\<close>

definition signUp :: "database \<Rightarrow> auth_response \<Rightarrow> string \<Rightarrow> string \<Rightarrow> error option \<times> database" where
  "signUp db response email fullName =
     (case response of
        SignUpFailed \<Rightarrow> (Some AuthError, db)
      | SignedUp None session \<Rightarrow> (Some AuthError, db)
      | SignedUp (Some uid) session \<Rightarrow>
          (let u = (if session then Some uid else None);
               count = length (rls_select profiles_policies db u (\<lambda>p. True) (profiles db));
               isFirstUser = (count = 0)
           in case insert_profile u db
                     \<lparr>p_id = uid, p_email = email, p_full_name = fullName,
                      p_role = (if isFirstUser then super_admin else user),
                      p_is_active = True\<rparr> of
                Inl profileError \<Rightarrow> (Some profileError, db)
              | Inr db' \<Rightarrow> (None, db')))"

section \<open>Runs of the application\<close>

text \<open>
  The requests above are all that the client sends to \<open>appointments\<close>,
  \<open>cash_register_closings\<close> and \<open>cash_register_transactions\<close> apart from reads.  An
  action is one of them with everything it takes from the user, the clock, the id
  generator and the state of the page, none of which is constrained here: a page may
  show rows that have changed since it loaded them.

  The users, procedures and patients pages write to \<open>profiles\<close>, \<open>procedures\<close> and
  \<open>patients\<close> only.  Their requests are not modelled one by one: the action
  \<open>OtherPages\<close> stands for any of them and may replace these three tables by
  anything.
\<close>

datatype action =
    SignUp auth_response string string
  | CreateAppointment uuid uuid bool appointment_form
  | UpdateStatus caller appointment appointment_status
  | CreateClosing uuid uuid date
  | AddTransaction caller uuid timestamp uuid "uuid option" money string
  | DeleteTransaction caller transactions_modal bool uuid
  | FinalizeClosing caller transactions_modal bool timestamp
  | OtherPages "profile list" "uuid list" "uuid list"

fun perform :: "action \<Rightarrow> database \<Rightarrow> database" where
  "perform (SignUp response email fullName) db = snd (signUp db response email fullName)"
| "perform (CreateAppointment uid new_id conflict f) db =
     snd (CreateAppointmentModal_handleSubmit uid db new_id conflict f)"
| "perform (UpdateStatus u appointment newStatus) db = snd (updateStatus u db appointment newStatus)"
| "perform (CreateClosing uid new_id today) db = snd (createClosing uid db new_id today)"
| "perform (AddTransaction u new_id now closingId appointmentId amount paymentMethod) db =
     snd (AddTransactionModal_handleSubmit u db new_id now closingId appointmentId amount paymentMethod)"
| "perform (DeleteTransaction u m confirm transactionId) db =
     snd (deleteTransaction u db m confirm transactionId)"
| "perform (FinalizeClosing u m confirm now) db = snd (finalizeClosing u db m confirm now)"
| "perform (OtherPages ps pts prs) db = db\<lparr>profiles := ps, patients := pts, procedures := prs\<rparr>"

fun run :: "action list \<Rightarrow> database \<Rightarrow> database" where
  "run [] db = db"
| "run (a # as) db = run as (perform a db)"

text \<open>The uniqueness constraints as predicates on the store.\<close>

definition unique_slots :: "database \<Rightarrow> bool" where
  "unique_slots db = distinct (map slot (appointments db))"

definition unique_closings :: "database \<Rightarrow> bool" where
  "unique_closings db =
     distinct (map (\<lambda>c. (c_professional_id c, c_closing_date c)) (closings db))"

text \<open>
  The two \<open>UPDATE\<close> policies of \<open>cash_register_closings\<close> together: the owner while
  the closing is not finalized, a super admin always.
\<close>

definition may_update_closing :: "database \<Rightarrow> caller \<Rightarrow> closing \<Rightarrow> bool" where
  "may_update_closing db u c =
     ((Some (c_professional_id c) = u \<and> \<not> is_finalized c) \<or> is_super_admin db u)"

definition closing_is_finalized :: "database \<Rightarrow> uuid \<Rightarrow> bool" where
  "closing_is_finalized db cid =
     (case closing_by_id db cid of None \<Rightarrow> False | Some c \<Rightarrow> is_finalized c)"

section \<open>Example stores\<close>

definition ana :: profile where
  "ana = \<lparr>p_id = 1, p_email = ''ana@clinic'', p_full_name = ''Ana'',
          p_role = user, p_is_active = True\<rparr>"

definition bia :: profile where
  "bia = \<lparr>p_id = 2, p_email = ''bia@clinic'', p_full_name = ''Bia'',
          p_role = user, p_is_active = True\<rparr>"

definition root :: profile where
  "root = \<lparr>p_id = 9, p_email = ''root@clinic'', p_full_name = ''Root'',
           p_role = super_admin, p_is_active = True\<rparr>"

definition open_closing :: closing where
  "open_closing = \<lparr>c_id = 10, c_professional_id = 1, c_closing_date = 100,
                   total_amount = 0, is_finalized = False, finalized_at = None\<rparr>"

text \<open>Ana's closing of day 100, open and empty.\<close>

definition db_open :: database where
  "db_open = \<lparr>profiles = [ana, bia, root], patients = [50], procedures = [60],
              appointments = [], closings = [open_closing], transactions = []\<rparr>"

definition closing_two :: closing where
  "closing_two = open_closing\<lparr>total_amount := 1500\<rparr>"

definition tx_old :: cash_transaction where
  "tx_old = \<lparr>t_id = 71, t_closing_id = 10, t_appointment_id = None, t_amount = 1000,
             t_payment_method = ''Dinheiro'', t_created_at = 1\<rparr>"

definition tx_new :: cash_transaction where
  "tx_new = \<lparr>t_id = 72, t_closing_id = 10, t_appointment_id = None, t_amount = 500,
             t_payment_method = ''Pix'', t_created_at = 2\<rparr>"

text \<open>The same closing with a transaction of 10.00 and a later one of 5.00.\<close>

definition db_two :: database where
  "db_two = db_open\<lparr>closings := [closing_two], transactions := [tx_old, tx_new]\<rparr>"

text \<open>The modal on that closing, with the list as \<open>loadTransactions\<close> orders it.\<close>

definition modal_two :: transactions_modal where
  "modal_two = \<lparr>m_closing = closing_two, m_transactions = [tx_new, tx_old]\<rparr>"

text \<open>
  Ana's open closing with two earlier transactions of 60,000,000.00 each and the one
  of 5.00, and the modal on it.
\<close>

definition tx_big1 :: cash_transaction where
  "tx_big1 = \<lparr>t_id = 73, t_closing_id = 10, t_appointment_id = None, t_amount = 6000000000,
              t_payment_method = ''Pix'', t_created_at = 0\<rparr>"

definition tx_big2 :: cash_transaction where
  "tx_big2 = \<lparr>t_id = 74, t_closing_id = 10, t_appointment_id = None, t_amount = 6000000000,
              t_payment_method = ''Pix'', t_created_at = 1\<rparr>"

definition db_large :: database where
  "db_large = db_open\<lparr>transactions := [tx_big1, tx_big2, tx_new]\<rparr>"

definition modal_large :: transactions_modal where
  "modal_large = \<lparr>m_closing = open_closing, m_transactions = [tx_new, tx_big2, tx_big1]\<rparr>"

text \<open>
  Ana's closing after she finalized it with the transaction of 10.00 in it, and the
  modal of a super admin who opened the closing before that.
\<close>

definition closing_final :: closing where
  "closing_final = open_closing\<lparr>total_amount := 1000, is_finalized := True, finalized_at := Some 5\<rparr>"

definition db_final :: database where
  "db_final = db_open\<lparr>closings := [closing_final], transactions := [tx_old]\<rparr>"

definition modal_stale :: transactions_modal where
  "modal_stale = \<lparr>m_closing = open_closing\<lparr>total_amount := 1000\<rparr>, m_transactions = [tx_old]\<rparr>"

definition modal_final :: transactions_modal where
  "modal_final = \<lparr>m_closing = closing_final, m_transactions = [tx_old]\<rparr>"

text \<open>
  An agenda with one appointment: Ana, day 200, minute 540 (09:00), scheduled; and the
  same agenda after that appointment was cancelled.
\<close>

definition appt_ana :: appointment where
  "appt_ana = \<lparr>a_id = 30, a_patient_id = 50, a_procedure_id = 60, a_professional_id = 1,
               a_appointment_date = 200, a_appointment_time = 540, a_status = scheduled,
               a_created_by = Some 1\<rparr>"

definition db_agenda :: database where
  "db_agenda = db_open\<lparr>appointments := [appt_ana]\<rparr>"

definition db_cancelled :: database where
  "db_cancelled = db_open\<lparr>appointments := [appt_ana\<lparr>a_status := cancelled\<rparr>]\<rparr>"

text \<open>The agenda after that appointment was completed.\<close>

definition db_completed :: database where
  "db_completed = db_open\<lparr>appointments := [appt_ana\<lparr>a_status := completed\<rparr>]\<rparr>"

text \<open>The booking form for Ana at that date and time, and the one for Bia.\<close>

definition form_ana :: appointment_form where
  "form_ana = \<lparr>patientId = 50, procedureId = 60, professionalId = 1,
               appointmentDate = 200, appointmentTime = 540\<rparr>"

definition form_bia :: appointment_form where
  "form_bia = \<lparr>patientId = 50, procedureId = 60, professionalId = 2,
               appointmentDate = 200, appointmentTime = 540\<rparr>"

section \<open>Properties\<close>

lemmas rls_defs =
  rls_using_def rls_check_def rls_select_def rls_update_def rls_delete_def
  applies_def using_expr_def check_expr_def is_super_admin_def numeric_10_2_def

lemmas example_defs = db_open_def open_closing_def ana_def bia_def root_def
  closing_two_def tx_old_def tx_new_def db_two_def modal_two_def
  closing_final_def db_final_def modal_stale_def modal_final_def
  appt_ana_def db_agenda_def db_cancelled_def form_ana_def form_bia_def
  tx_big1_def tx_big2_def db_large_def modal_large_def db_completed_def


subsection \<open>The policies in closed form\<close>

lemma not_admin_anon [simp]: "is_super_admin db None = False"
  by (simp add: is_super_admin_def list_ex_iff)

lemma closings_select_iff:
  "rls_using closings_policies FOR_SELECT db u r
     = (Some (c_professional_id r) = u \<or> is_super_admin db u)"
  by (cases u) (auto simp: closings_policies_def rls_using_def applies_def using_expr_def)

lemma closings_update_iff:
  "rls_using closings_policies FOR_UPDATE db u r
     = ((Some (c_professional_id r) = u \<and> \<not> is_finalized r) \<or> is_super_admin db u)"
  by (cases u) (auto simp: closings_policies_def rls_using_def applies_def using_expr_def)

lemma closings_update_check_iff:
  "rls_check closings_policies FOR_UPDATE db u r
     = (Some (c_professional_id r) = u \<or> is_super_admin db u)"
  by (cases u)
     (auto simp: closings_policies_def rls_check_def applies_def using_expr_def check_expr_def)

lemma closings_insert_check_iff:
  "rls_check closings_policies FOR_INSERT db u r = (Some (c_professional_id r) = u)"
  by (cases u)
     (auto simp: closings_policies_def rls_check_def applies_def using_expr_def check_expr_def)

lemma closings_subquery_iff:
  "(rls_select closings_policies db u cond (closings db) \<noteq> [])
     = list_ex (\<lambda>c. (Some (c_professional_id c) = u \<or> is_super_admin db u) \<and> cond c)
         (closings db)"
  by (simp add: rls_select_def closings_select_iff filter_empty_conv list_ex_iff)

lemma transactions_no_delete:
  "rls_using transactions_policies FOR_DELETE db u r = False"
  by (simp add: transactions_policies_def rls_using_def applies_def)

lemma transactions_select_iff:
  "rls_using transactions_policies FOR_SELECT db u r
     = (list_ex (\<lambda>c. c_id c = t_closing_id r \<and> Some (c_professional_id c) = u) (closings db)
        \<or> is_super_admin db u)"
  by (cases u)
     (auto simp: transactions_policies_def rls_using_def applies_def using_expr_def
        closings_subquery_iff list_ex_iff)

lemma transactions_insert_check_iff:
  "rls_check transactions_policies FOR_INSERT db u r
     = (list_ex (\<lambda>c. c_id c = t_closing_id r \<and> Some (c_professional_id c) = u
                     \<and> \<not> is_finalized c) (closings db)
        \<or> is_super_admin db u)"
  by (cases u)
     (auto simp: transactions_policies_def rls_check_def applies_def using_expr_def
        check_expr_def closings_subquery_iff list_ex_iff)

lemma appointments_select_iff:
  "rls_using appointments_policies FOR_SELECT db u r
     = (Some (a_professional_id r) = u \<or> is_super_admin db u)"
  by (cases u) (auto simp: appointments_policies_def rls_using_def applies_def using_expr_def)

lemma appointments_update_iff:
  "rls_using appointments_policies FOR_UPDATE db u r
     = (Some (a_professional_id r) = u \<or> is_super_admin db u)"
  by (cases u) (auto simp: appointments_policies_def rls_using_def applies_def using_expr_def)

lemma appointments_update_check_iff:
  "rls_check appointments_policies FOR_UPDATE db u r
     = (Some (a_professional_id r) = u \<or> is_super_admin db u)"
  by (cases u)
     (auto simp: appointments_policies_def rls_check_def applies_def using_expr_def
        check_expr_def)

lemma appointments_insert_check_iff:
  "rls_check appointments_policies FOR_INSERT db u r
     = ((Some (a_professional_id r) = u \<and> a_created_by r = u) \<or> is_super_admin db u)"
  by (cases u)
     (auto simp: appointments_policies_def rls_check_def applies_def using_expr_def
        check_expr_def)

lemma profiles_select_iff:
  "rls_using profiles_policies FOR_SELECT db u r = (u \<noteq> None)"
  by (cases u) (auto simp: profiles_policies_def rls_using_def applies_def using_expr_def)

lemma profiles_insert_check_iff:
  "rls_check profiles_policies FOR_INSERT db u r = True"
  by (cases u)
     (auto simp: profiles_policies_def rls_check_def applies_def using_expr_def check_expr_def)

subsection \<open>The write requests in closed form\<close>

lemma foldl_amounts:
  "foldl (\<lambda>sum t. sum + t_amount t) a xs = a + sum_list (map t_amount xs)"
  by (induction xs arbitrary: a) auto

text \<open>An update that leaves the owner of a closing alone never fails a \<open>WITH CHECK\<close>.\<close>

lemma rls_update_closings_eq:
  assumes "\<And>c. c_professional_id (f c) = c_professional_id c"
  shows "rls_update closings_policies db u cond f fits rows
           = (if list_ex (\<lambda>c. cond c \<and> may_update_closing db u c \<and> \<not> fits (f c)) rows
              then Inl NumericOverflow
              else Inr (map (\<lambda>c. if cond c \<and> may_update_closing db u c then f c else c) rows))"
proof -
  have target: "(cond c \<and> rls_using closings_policies FOR_SELECT db u c
                  \<and> rls_using closings_policies FOR_UPDATE db u c)
                = (cond c \<and> may_update_closing db u c)" for c
    by (auto simp: closings_select_iff closings_update_iff may_update_closing_def)
  have ok: "may_update_closing db u c \<Longrightarrow> rls_check closings_policies FOR_UPDATE db u (f c)" for c
    by (auto simp: closings_update_check_iff may_update_closing_def assms)
  show ?thesis
    unfolding rls_update_def Let_def target
    using ok by (auto simp: list_ex_iff)
qed

lemma update_closings_eq:
  assumes "\<And>c. c_professional_id (f c) = c_professional_id c"
  shows "update_closings u db cond f fits
           = (if list_ex (\<lambda>c. cond c \<and> may_update_closing db u c \<and> \<not> fits (f c)) (closings db)
              then Inl NumericOverflow
              else Inr (db\<lparr>closings :=
                      map (\<lambda>c. if cond c \<and> may_update_closing db u c then f c else c)
                        (closings db)\<rparr>))"
  by (simp add: update_closings_def rls_update_closings_eq [OF assms])

text \<open>Writing a total: refused as a whole when the total does not fit the column.\<close>

lemma update_total_eq:
  "update_closings u db cond (\<lambda>c. c\<lparr>total_amount := v\<rparr>) (\<lambda>c. numeric_10_2 (total_amount c))
     = (if list_ex (\<lambda>c. cond c \<and> may_update_closing db u c) (closings db) \<and> \<not> numeric_10_2 v
        then Inl NumericOverflow
        else Inr (db\<lparr>closings :=
                map (\<lambda>c. if cond c \<and> may_update_closing db u c then c\<lparr>total_amount := v\<rparr> else c)
                  (closings db)\<rparr>))"
  by (auto simp: update_closings_eq list_ex_iff)

lemma map_no_target:
  "\<not> list_ex P xs \<Longrightarrow> map (\<lambda>x. if P x then f x else x) xs = xs"
  by (induction xs) auto

lemma delete_transactions_noop: "delete_transactions u db cond = db"
  by (simp add: delete_transactions_def rls_delete_def transactions_no_delete)

lemma find_id_map:
  assumes "\<And>c. c_id (f c) = c_id c"
  shows "find (\<lambda>c. c_id c = cid) (map (\<lambda>c. if P c then f c else c) cs)
           = map_option (\<lambda>c. if P c then f c else c) (find (\<lambda>c. c_id c = cid) cs)"
  by (induction cs) (auto simp: assms)

text \<open>
  \<open>updateTotal\<close> writes the sum when it fits the column and leaves the store as it
  was otherwise.
\<close>

lemma updateTotal_eq:
  "updateTotal u db m =
     (if numeric_10_2 (sum_list (map t_amount
               (filter (\<lambda>t. Some (t_id t)
                             \<noteq> (case m_transactions m of [] \<Rightarrow> None | t # _ \<Rightarrow> Some (t_id t)))
                  (m_transactions m))))
      then db\<lparr>closings := map (\<lambda>c. if c_id c = c_id (m_closing m) \<and> may_update_closing db u c
        then c\<lparr>total_amount := sum_list (map t_amount
               (filter (\<lambda>t. Some (t_id t)
                             \<noteq> (case m_transactions m of [] \<Rightarrow> None | t # _ \<Rightarrow> Some (t_id t)))
                  (m_transactions m)))\<rparr> else c) (closings db)\<rparr>
      else db)"
proof (cases "list_ex (\<lambda>c. c_id c = c_id (m_closing m) \<and> may_update_closing db u c) (closings db)")
  case True
  then show ?thesis
    by (simp add: updateTotal_def Let_def update_total_eq foldl_amounts)
next
  case False
  then show ?thesis
    by (simp add: updateTotal_def Let_def update_total_eq foldl_amounts map_no_target)
qed

subsection \<open>What each action does to the tables\<close>

lemma rls_update_appointments_eq:
  assumes "\<And>a. a_professional_id (f a) = a_professional_id a"
  shows "rls_update appointments_policies db u cond f (\<lambda>a. True) rows
           = Inr (map (\<lambda>a. if cond a \<and> (Some (a_professional_id a) = u \<or> is_super_admin db u)
                           then f a else a) rows)"
proof -
  have target: "(cond a \<and> rls_using appointments_policies FOR_SELECT db u a
                  \<and> rls_using appointments_policies FOR_UPDATE db u a)
                = (cond a \<and> (Some (a_professional_id a) = u \<or> is_super_admin db u))" for a
    by (auto simp: appointments_select_iff appointments_update_iff)
  show ?thesis
    unfolding rls_update_def Let_def target
    by (auto simp: list_ex_iff appointments_update_check_iff assms)
qed

lemma update_appointments_eq:
  assumes "\<And>a. a_professional_id (f a) = a_professional_id a"
  shows "update_appointments u db cond f
           = Inr (db\<lparr>appointments :=
                map (\<lambda>a. if cond a \<and> (Some (a_professional_id a) = u \<or> is_super_admin db u)
                         then f a else a) (appointments db)\<rparr>)"
  by (simp add: update_appointments_def rls_update_appointments_eq [OF assms])

lemma updateStatus_eq:
  "updateStatus u db appointment newStatus =
     (None, db\<lparr>appointments :=
        map (\<lambda>a. if a_id a = a_id appointment \<and> (Some (a_professional_id a) = u \<or> is_super_admin db u)
                 then a\<lparr>a_status := newStatus\<rparr> else a) (appointments db)\<rparr>)"
  by (simp add: updateStatus_def update_appointments_eq)

lemma finalizeClosing_eq:
  "finalizeClosing u db m True now =
     (None, db\<lparr>closings :=
        map (\<lambda>c. if c_id c = c_id (m_closing m) \<and> may_update_closing db u c
                 then c\<lparr>is_finalized := True, finalized_at := Some now\<rparr> else c) (closings db)\<rparr>)"
  by (simp add: finalizeClosing_def update_closings_eq list_ex_iff)

lemma finalizeClosing_cancel: "finalizeClosing u db m False now = (None, db)"
  by (simp add: finalizeClosing_def)


lemma admin_transactions_upd [simp]:
  "is_super_admin (db\<lparr>transactions := ts\<rparr>) u = is_super_admin db u"
  by (simp add: is_super_admin_def)

lemma may_update_transactions_upd [simp]:
  "may_update_closing (db\<lparr>transactions := ts\<rparr>) u c = may_update_closing db u c"
  by (simp add: may_update_closing_def)

lemma insert_transaction_cases:
  "insert_transaction u db t = Inr db1 \<Longrightarrow> db1 = db\<lparr>transactions := transactions db @ [t]\<rparr>"
  by (auto simp: insert_transaction_def split: if_splits)

text \<open>What each action does to the closings table.\<close>

lemma AddTransaction_closings:
  "closings (snd (AddTransactionModal_handleSubmit u db new_id now cid ap amount pm)) = closings db
   \<or> (\<exists>total. closings (snd (AddTransactionModal_handleSubmit u db new_id now cid ap amount pm))
     = map (\<lambda>c. if c_id c = cid \<and> may_update_closing db u c
                then c\<lparr>total_amount := total\<rparr> else c) (closings db))"
proof (cases "insert_transaction u db
             \<lparr>t_id = new_id, t_closing_id = cid, t_appointment_id = ap,
              t_amount = amount, t_payment_method = pm, t_created_at = now\<rparr>")
  case (Inl e)
  then show ?thesis
    by (simp add: AddTransactionModal_handleSubmit_def)
next
  case (Inr db1)
  then show ?thesis
    by (auto simp: AddTransactionModal_handleSubmit_def Let_def update_total_eq
          dest!: insert_transaction_cases)
qed

lemma DeleteTransaction_closings:
  "closings (snd (deleteTransaction u db m confirm tid)) = closings db
   \<or> (\<exists>total. closings (snd (deleteTransaction u db m confirm tid))
     = map (\<lambda>c. if c_id c = c_id (m_closing m) \<and> may_update_closing db u c
                then c\<lparr>total_amount := total\<rparr> else c) (closings db))"
  by (cases confirm)
     (auto simp: deleteTransaction_def delete_transactions_noop updateTotal_eq)

lemma FinalizeClosing_closings:
  "closings (snd (finalizeClosing u db m confirm now)) = closings db
   \<or> closings (snd (finalizeClosing u db m confirm now))
     = map (\<lambda>c. if c_id c = c_id (m_closing m) \<and> may_update_closing db u c
                then c\<lparr>is_finalized := True, finalized_at := Some now\<rparr> else c) (closings db)"
  by (cases confirm) (auto simp: finalizeClosing_eq finalizeClosing_cancel)

lemma CreateClosing_closings:
  "closings (snd (createClosing uid db new_id today)) = closings db
   \<or> (closings (snd (createClosing uid db new_id today))
        = closings db @ [\<lparr>c_id = new_id, c_professional_id = uid, c_closing_date = today,
                   total_amount = 0, is_finalized = False, finalized_at = None\<rparr>]
      \<and> (uid, today) \<notin> set (map (\<lambda>c. (c_professional_id c, c_closing_date c)) (closings db))
      \<and> new_id \<notin> set (map c_id (closings db)))"
  by (auto simp: createClosing_def insert_closing_def split: option.splits if_splits)

lemma SignUp_closings: "closings (snd (signUp db r e n)) = closings db"
  by (auto simp: signUp_def insert_profile_def Let_def split: auth_response.splits option.splits)

lemma SignUp_appointments: "appointments (snd (signUp db r e n)) = appointments db"
  by (auto simp: signUp_def insert_profile_def Let_def split: auth_response.splits option.splits)

lemma CreateAppointment_closings:
  "closings (snd (CreateAppointmentModal_handleSubmit uid db new_id conflict f)) = closings db"
  by (auto simp: CreateAppointmentModal_handleSubmit_def insert_appointment_def)

lemma UpdateStatus_closings: "closings (snd (updateStatus u db a st)) = closings db"
  by (simp add: updateStatus_eq)

text \<open>Every action maps the closings row by row and appends at most one new row.\<close>

lemma perform_closings:
  "\<exists>g extra. closings (perform a db) = map g (closings db) @ extra
     \<and> (\<forall>c. c_id (g c) = c_id c \<and> c_professional_id (g c) = c_professional_id c
            \<and> c_closing_date (g c) = c_closing_date c
            \<and> (is_finalized c \<longrightarrow> is_finalized (g c)))
     \<and> (extra = [] \<or> (\<exists>c. extra = [c]
            \<and> (c_professional_id c, c_closing_date c)
                 \<notin> set (map (\<lambda>c. (c_professional_id c, c_closing_date c)) (closings db))))"
proof -
  have same: ?thesis if "closings (perform a db) = closings db"
    using that by (intro exI[of _ id] exI[of _ "[]"]) simp
  have total: ?thesis
    if "closings (perform a db) = map (\<lambda>c. if P c then c\<lparr>total_amount := x\<rparr> else c) (closings db)"
    for P x
    using that
    by (intro exI[of _ "\<lambda>c. if P c then c\<lparr>total_amount := x\<rparr> else c"] exI[of _ "[]"]) simp
  have fin: ?thesis
    if "closings (perform a db)
          = map (\<lambda>c. if P c then c\<lparr>is_finalized := True, finalized_at := Some x\<rparr> else c) (closings db)"
    for P x
    using that
    by (intro exI[of _ "\<lambda>c. if P c then c\<lparr>is_finalized := True, finalized_at := Some x\<rparr> else c"]
          exI[of _ "[]"]) simp
  have new: ?thesis
    if "closings (perform a db) = closings db @ [c]"
       "(c_professional_id c, c_closing_date c)
           \<notin> set (map (\<lambda>c. (c_professional_id c, c_closing_date c)) (closings db))"
    for c
    using that by (intro exI[of _ id] exI[of _ "[c]"]) simp
  show ?thesis
  proof (cases a)
    case (SignUp r e n)
    then show ?thesis using same by (simp add: SignUp_closings)
  next
    case (CreateAppointment uid nid conflict f)
    then show ?thesis using same by (simp add: CreateAppointment_closings)
  next
    case (UpdateStatus u ap st)
    then show ?thesis using same by (simp add: UpdateStatus_closings)
  next
    case (CreateClosing uid nid today)
    then show ?thesis
      using CreateClosing_closings [of uid db nid today] same new by auto
  next
    case (AddTransaction u nid now cid ap amount pm)
    then show ?thesis
      using AddTransaction_closings [of u db nid now cid ap amount pm] same total by auto
  next
    case (DeleteTransaction u m confirm tid)
    then show ?thesis
      using DeleteTransaction_closings [of u db m confirm tid] same total by auto
  next
    case (FinalizeClosing u m confirm now)
    then show ?thesis
      using FinalizeClosing_closings [of u db m confirm now] same fin by auto
  next
    case (OtherPages ps pts prs)
    then show ?thesis using same by simp
  qed
qed


lemma finalized_kept:
  assumes "\<And>c. c_id (g c) = c_id c" and "\<And>c. is_finalized c \<Longrightarrow> is_finalized (g c)"
      and "case find (\<lambda>c. c_id c = cid) cs of None \<Rightarrow> False | Some c \<Rightarrow> is_finalized c"
  shows "case find (\<lambda>c. c_id c = cid) (map g cs @ extra) of
           None \<Rightarrow> False | Some c \<Rightarrow> is_finalized c"
  using assms(3) by (induction cs) (auto simp: assms(1,2))

lemma perform_keeps_finalized:
  assumes "closing_is_finalized db cid"
  shows "closing_is_finalized (perform a db) cid"
proof -
  obtain g extra where shape: "closings (perform a db) = map g (closings db) @ extra"
    and g: "\<And>c. c_id (g c) = c_id c" "\<And>c. is_finalized c \<Longrightarrow> is_finalized (g c)"
    using perform_closings [of a db] by blast
  show ?thesis
    using finalized_kept [of g cid "closings db" extra] g assms
    by (simp add: closing_is_finalized_def closing_by_id_def shape)
qed

lemma run_keeps_finalized:
  "closing_is_finalized db cid \<Longrightarrow> closing_is_finalized (run as db) cid"
  by (induction as arbitrary: db) (auto simp: perform_keeps_finalized)

lemma perform_keeps_unique_closings:
  assumes "unique_closings db"
  shows "unique_closings (perform a db)"
proof -
  let ?k = "\<lambda>c. (c_professional_id c, c_closing_date c)"
  obtain g extra where shape: "closings (perform a db) = map g (closings db) @ extra"
    and g: "\<And>c. ?k (g c) = ?k c"
    and extra: "extra = [] \<or> (\<exists>c. extra = [c] \<and> ?k c \<notin> set (map ?k (closings db)))"
    using perform_closings [of a db] by auto
  have keys: "map ?k (map g (closings db)) = map ?k (closings db)"
    using g by simp
  show ?thesis
    using assms extra unfolding unique_closings_def shape map_append keys
    by (force simp: image_iff)
qed

lemma run_keeps_unique_closings:
  "unique_closings db \<Longrightarrow> unique_closings (run as db)"
  by (induction as arbitrary: db) (auto simp: perform_keeps_unique_closings)

lemma own_closings_visible:
  "select_closings (Some uid) db (\<lambda>c. c_professional_id c = uid \<and> c_closing_date c = today)
     = filter (\<lambda>c. (c_professional_id c, c_closing_date c) = (uid, today)) (closings db)"
  by (auto simp: select_closings_def rls_select_def closings_select_iff intro: filter_cong)

lemma filter_key_single:
  "distinct (map k xs) \<Longrightarrow> v \<in> set (map k xs) \<Longrightarrow> \<exists>x. filter (\<lambda>x. k x = v) xs = [x]"
proof (induction xs)
  case Nil
  then show ?case by simp
next
  case (Cons a xs)
  show ?case
  proof (cases "k a = v")
    case True
    then have "filter (\<lambda>x. k x = v) xs = []"
      using Cons.prems(1) by (force simp: filter_empty_conv image_iff)
    with True show ?thesis by simp
  next
    case False
    then show ?thesis using Cons by auto
  qed
qed

lemma createClosing_new:
  assumes "(uid, today) \<notin> set (map (\<lambda>c. (c_professional_id c, c_closing_date c)) (closings db))"
      and "new_id \<notin> set (map c_id (closings db))"
      and "uid \<in> set (map p_id (profiles db))"
  shows "createClosing uid db new_id today =
           (None, db\<lparr>closings := closings db @
              [\<lparr>c_id = new_id, c_professional_id = uid, c_closing_date = today,
                total_amount = 0, is_finalized = False, finalized_at = None\<rparr>]\<rparr>)"
proof -
  have "filter (\<lambda>c. (c_professional_id c, c_closing_date c) = (uid, today)) (closings db) = []"
    using assms(1) by (auto simp: filter_empty_conv)
  then show ?thesis
    using assms
    by (simp add: createClosing_def own_closings_visible maybeSingle_def insert_closing_def
          closings_insert_check_iff)
qed

lemma createClosing_second:
  assumes "(uid, today) \<in> set (map (\<lambda>c. (c_professional_id c, c_closing_date c)) (closings db))"
  shows "snd (createClosing uid db new_id today) = db
         \<and> (fst (createClosing uid db new_id today) = Some DuplicateClosing
            \<or> fst (createClosing uid db new_id today) = Some UniqueViolation)"
  using assms
  by (auto simp: createClosing_def own_closings_visible maybeSingle_def insert_closing_def
          closings_insert_check_iff split: list.splits option.splits)

lemma createClosing_duplicate:
  assumes "(uid, today) \<in> set (map (\<lambda>c. (c_professional_id c, c_closing_date c)) (closings db))"
      and "unique_closings db"
  shows "createClosing uid db new_id today = (Some DuplicateClosing, db)"
proof -
  obtain x where "filter (\<lambda>c. (c_professional_id c, c_closing_date c) = (uid, today)) (closings db) = [x]"
    using filter_key_single [of "\<lambda>c. (c_professional_id c, c_closing_date c)" "closings db" "(uid, today)"]
      assms by (auto simp: unique_closings_def)
  then show ?thesis
    by (simp add: createClosing_def own_closings_visible maybeSingle_def)
qed

subsection \<open>Adding a transaction\<close>

text \<open>
  What a successful add writes, for a caller who may update the closing (its owner
  while it is open, or a super admin): the sum of the stored transactions of the
  closing, the new one among them, plus the amount of the form.
\<close>

lemma own_transactions_visible:
  assumes "closing_by_id db cid = Some c" and "may_update_closing db u c"
  shows "select_transactions u db (\<lambda>t. t_closing_id t = cid)
           = filter (\<lambda>t. t_closing_id t = cid) (transactions db)"
proof -
  have "c \<in> set (closings db)" "c_id c = cid"
    using assms(1) by (auto simp: closing_by_id_def find_Some_iff)
  then have "rls_using transactions_policies FOR_SELECT db u t" if "t_closing_id t = cid" for t
    using assms(2) that
    by (auto simp: transactions_select_iff list_ex_iff may_update_closing_def)
  then show ?thesis
    by (auto simp: select_transactions_def rls_select_def intro: filter_cong)
qed

lemma add_transaction_total:
  assumes "AddTransactionModal_handleSubmit u db new_id now cid ap amount pm = (None, db')"
      and "closing_by_id db cid = Some c" and "may_update_closing db u c"
  shows "closing_by_id db' cid = Some (c\<lparr>total_amount := stored_total db' cid + amount\<rparr>)"
proof -
  let ?t = "\<lparr>t_id = new_id, t_closing_id = cid, t_appointment_id = ap,
             t_amount = amount, t_payment_method = pm, t_created_at = now\<rparr>"
  let ?db1 = "db\<lparr>transactions := transactions db @ [?t]\<rparr>"
  have ins: "insert_transaction u db ?t = Inr ?db1"
    using assms(1) insert_transaction_cases [of u db ?t]
    by (cases "insert_transaction u db ?t")
       (auto simp: AddTransactionModal_handleSubmit_def)
  have c1: "closing_by_id ?db1 cid = Some c" "may_update_closing ?db1 u c"
    using assms(2,3) by (simp_all add: closing_by_id_def)
  have idc: "c_id c = cid"
    using assms(2) by (auto simp: closing_by_id_def find_Some_iff)
  have upd: "update_closings u ?db1 (\<lambda>c. c_id c = cid)
               (\<lambda>c. c\<lparr>total_amount := stored_total ?db1 cid + amount\<rparr>)
               (\<lambda>c. numeric_10_2 (total_amount c)) = Inr db'"
    using assms(1)
    by (simp add: AddTransactionModal_handleSubmit_def ins Let_def
          own_transactions_visible [OF c1] foldl_amounts stored_total_def
          split: sum.splits)
  have db': "db' = ?db1\<lparr>closings :=
        map (\<lambda>x. if c_id x = cid \<and> may_update_closing db u x
                 then x\<lparr>total_amount := stored_total ?db1 cid + amount\<rparr> else x) (closings db)\<rparr>"
    using upd by (simp add: update_total_eq split: if_splits)
  show ?thesis
    using assms(2,3) idc
    by (simp add: db' closing_by_id_def find_id_map stored_total_def)
qed

text \<open>
  C1.  After a successful add-transaction on an open closing, \<open>total_amount\<close> should
  be the sum of the amounts of the closing's transactions, the new one included.
  The code reads the amounts back after the insert, so the new row is among them, and
  then adds the amount of the form once more.  Ana adds 10.00 to her empty open
  closing: the request succeeds, the stored transactions sum to 10.00 and
  \<open>total_amount\<close> is 20.00.
\<close>

theorem add_transaction_counts_new_amount_twice:
  "fst (AddTransactionModal_handleSubmit (Some 1) db_open 70 1 10 None 1000 ''Dinheiro'') = None
   \<and> map total_amount
         (closings (snd (AddTransactionModal_handleSubmit (Some 1) db_open 70 1 10 None 1000 ''Dinheiro'')))
       = [2000]
   \<and> stored_total
         (snd (AddTransactionModal_handleSubmit (Some 1) db_open 70 1 10 None 1000 ''Dinheiro'')) 10
       = 1000"
  by (simp add: AddTransactionModal_handleSubmit_def insert_transaction_def
        select_transactions_def update_closings_def transactions_policies_def
        closings_policies_def rls_defs example_defs stored_total_def Let_def)

subsection \<open>Deleting a transaction\<close>

text \<open>
  C2.  After a delete-transaction on an open closing, \<open>total_amount\<close> should be the
  sum of the transactions that remain: the deleted one left out, every other one in.
  \<open>updateTotal\<close> leaves out the first transaction of the loaded list, whichever one
  was asked to go.  Ana's closing holds 10.00 (older) and 5.00 (newer), listed newest
  first; she deletes the one of 10.00.  The code writes 10.00; the sum without the
  deleted transaction is 5.00, and both rows are still stored (see C10).
\<close>

theorem delete_transaction_total_leaves_out_first_listed:
  "loadTransactions (Some 1) db_two closing_two = m_transactions modal_two
   \<and> fst (deleteTransaction (Some 1) db_two modal_two True 71) = None
   \<and> transactions (snd (deleteTransaction (Some 1) db_two modal_two True 71)) = [tx_old, tx_new]
   \<and> map total_amount (closings (snd (deleteTransaction (Some 1) db_two modal_two True 71)))
       = [1000]
   \<and> sum_list (map t_amount (filter (\<lambda>t. t_id t \<noteq> 71) (transactions db_two))) = 500"
  by (simp add: loadTransactions_def select_transactions_def deleteTransaction_def
        updateTotal_def delete_transactions_def update_closings_def transactions_policies_def
        closings_policies_def rls_defs example_defs Let_def)

text \<open>
  C10, as the claim states it, fails in its last part: after the delete request that
  removes nothing, \<open>deleteTransaction\<close> should write \<open>total_amount\<close> as if the row
  were gone.  Ana deletes the transaction of 10.00, second in the list: without it the
  closing would hold 5.00, the code writes 10.00.  And with two transactions of
  60,000,000.00 behind the one of 5.00 that heads the list, Ana deletes that one: the
  sum of the others does not fit the column, the update is refused and the total
  stays at 0.00.  And from a modal that still shows her finalized closing open, Ana
  deletes its only transaction: the update policy passes over the row and the total
  stays at 10.00.
\<close>

theorem delete_total_differs_from_row_gone:
  "loadTransactions (Some 1) db_two closing_two = m_transactions modal_two
   \<and> map t_id (m_transactions modal_two) = [72, 71]
   \<and> t_amount tx_new = 500
   \<and> map total_amount (closings (snd (deleteTransaction (Some 1) db_two modal_two True 71)))
       = [1000]
   \<and> loadTransactions (Some 1) db_large open_closing = m_transactions modal_large
   \<and> map t_id (m_transactions modal_large) = [72, 74, 73]
   \<and> t_amount tx_big2 + t_amount tx_big1 = 12000000000
   \<and> map total_amount (closings db_large) = [0]
   \<and> map total_amount (closings (snd (deleteTransaction (Some 1) db_large modal_large True 72)))
       = [0]
   \<and> closing_is_finalized db_final 10
   \<and> map t_id (m_transactions modal_stale) = [71]
   \<and> map total_amount (closings (snd (deleteTransaction (Some 1) db_final modal_stale True 71)))
       = [1000]"
  by (simp add: loadTransactions_def select_transactions_def deleteTransaction_def
        updateTotal_def delete_transactions_def update_closings_def transactions_policies_def
        closings_policies_def rls_defs example_defs closing_is_finalized_def closing_by_id_def
        Let_def)

text \<open>
  C10, amended.  The policies of \<open>cash_register_transactions\<close> are two for \<open>SELECT\<close>
  and two for \<open>INSERT\<close>, none for \<open>DELETE\<close> or \<open>UPDATE\<close>.  So a delete request on the
  table removes no row, for any caller and any state of the parent closing, and
  reports no error.  \<open>deleteTransaction\<close> reports no error either and goes on to
  \<open>updateTotal\<close> with the list that the modal had loaded; the stored transactions are
  what they were.  When the caller may update the closing (its owner while it is
  open, or a super admin), the transaction to delete heads the loaded list and the
  sum of the other listed transactions fits the column, \<open>total_amount\<close> becomes that
  sum, as if the row were gone.
\<close>

theorem delete_removes_no_row_yet_total_is_rewritten:
  "map pol_cmd transactions_policies = [FOR_SELECT, FOR_SELECT, FOR_INSERT, FOR_INSERT]
   \<and> delete_transactions u db cond = db
   \<and> deleteTransaction u db m True transactionId = (None, updateTotal u db m)
   \<and> transactions (updateTotal u db m) = transactions db
   \<and> (closing_by_id db (c_id (m_closing m)) = Some c
        \<and> may_update_closing db u c
        \<and> m_transactions m = t # rest
        \<and> t_id t = transactionId
        \<and> transactionId \<notin> set (map t_id rest)
        \<and> numeric_10_2 (sum_list (map t_amount rest)) \<longrightarrow>
      closing_by_id (updateTotal u db m) (c_id (m_closing m))
        = Some (c\<lparr>total_amount := sum_list (map t_amount rest)\<rparr>))"
proof -
  have a: "map pol_cmd transactions_policies = [FOR_SELECT, FOR_SELECT, FOR_INSERT, FOR_INSERT]"
    by (simp add: transactions_policies_def)
  have b: "deleteTransaction u db m True transactionId = (None, updateTotal u db m)"
    by (simp add: deleteTransaction_def delete_transactions_noop)
  have c: "transactions (updateTotal u db m) = transactions db"
    by (simp add: updateTotal_eq)
  have d: "closing_by_id (updateTotal u db m) (c_id (m_closing m))
         = Some (c\<lparr>total_amount := sum_list (map t_amount rest)\<rparr>)"
    if h: "closing_by_id db (c_id (m_closing m)) = Some c" "may_update_closing db u c"
          "m_transactions m = t # rest" "t_id t = transactionId"
          "transactionId \<notin> set (map t_id rest)"
          "numeric_10_2 (sum_list (map t_amount rest))"
  proof -
    have keep: "filter (\<lambda>x. t_id x \<noteq> t_id t) rest = rest"
      using h(4,5) by (force simp: filter_id_conv image_iff)
    have idc: "c_id c = c_id (m_closing m)"
      using h(1) by (auto simp: closing_by_id_def find_Some_iff)
    show ?thesis
      using h(1,2,6) idc
      by (simp add: updateTotal_eq closing_by_id_def find_id_map h(3) keep)
  qed
  show ?thesis using a b c d delete_transactions_noop by blast
qed

theorem delete_removes_no_row_yet_total_is_rewritten_witness:
  "closing_by_id db_two (c_id (m_closing modal_two)) = Some closing_two
   \<and> may_update_closing db_two (Some 1) closing_two
   \<and> m_transactions modal_two = tx_new # [tx_old]
   \<and> numeric_10_2 (sum_list (map t_amount [tx_old]))
   \<and> deleteTransaction (Some 1) db_two modal_two True 72 = (None, updateTotal (Some 1) db_two modal_two)
   \<and> transactions (updateTotal (Some 1) db_two modal_two) = [tx_old, tx_new]
   \<and> closing_by_id (updateTotal (Some 1) db_two modal_two) 10
       = Some (closing_two\<lparr>total_amount := 1000\<rparr>)
   \<and> stored_total (updateTotal (Some 1) db_two modal_two) 10 = 1500"
proof -
  have h1: "closing_by_id db_two (c_id (m_closing modal_two)) = Some closing_two"
    by (simp add: closing_by_id_def example_defs)
  have h2: "may_update_closing db_two (Some 1) closing_two"
    by (simp add: may_update_closing_def example_defs)
  have h3: "m_transactions modal_two = tx_new # [tx_old]"
    by (simp add: example_defs)
  have h4: "t_id tx_new = 72"
    by (simp add: example_defs)
  have h5: "(72::nat) \<notin> set (map t_id [tx_old])"
    by (simp add: example_defs)
  have h6: "numeric_10_2 (sum_list (map t_amount [tx_old]))"
    by (simp add: numeric_10_2_def example_defs)
  have cid: "c_id (m_closing modal_two) = 10"
    by (simp add: example_defs)
  have txs: "transactions db_two = [tx_old, tx_new]"
    by (simp add: example_defs)
  have amounts: "t_amount tx_old = 1000" "t_amount tx_new = 500"
                "t_closing_id tx_old = 10" "t_closing_id tx_new = 10"
    by (simp_all add: example_defs)
  from delete_removes_no_row_yet_total_is_rewritten
         [of "Some 1" db_two "\<lambda>t. t_id t = 72" modal_two 72 closing_two tx_new "[tx_old]"]
  show ?thesis
    using h1 h2 h3 h4 h5 h6 by (simp add: cid txs amounts stored_total_def)
qed

subsection \<open>Finalized closings\<close>

lemma insert_transaction_finalized:
  assumes "list_all (\<lambda>c. c_id c = t_closing_id t \<longrightarrow> is_finalized c) (closings db)"
      and "\<not> is_super_admin db u"
  shows "insert_transaction u db t
           = Inl (if numeric_10_2 (t_amount t) then RlsViolation else NumericOverflow)"
  using assms
  by (auto simp: insert_transaction_def transactions_insert_check_iff list_ex_iff list_all_iff)

lemma updateTotal_finalized:
  assumes "list_all (\<lambda>c. c_id c = c_id (m_closing m) \<longrightarrow> is_finalized c) (closings db)"
      and "\<not> is_super_admin db u"
  shows "updateTotal u db m = db"
proof -
  have "map (\<lambda>c. if c_id c = c_id (m_closing m) \<and> may_update_closing db u c then f c else c)
          (closings db) = closings db" for f
    using assms by (intro map_idI) (auto simp: list_all_iff may_update_closing_def)
  then show ?thesis by (simp add: updateTotal_eq)
qed

text \<open>
  C6, as the claim states it, fails: every add or delete call on a finalized closing
  should be rejected and leave \<open>total_amount\<close> alone.  The super-admin policies of the
  two tables do not look at \<open>is_finalized\<close>.  Root opened Ana's closing in the modal
  while it was open; Ana finalized it at 10.00; Root adds 5.00: the call succeeds and
  \<open>total_amount\<close> goes from 10.00 to 20.00.  And a delete call is not rejected: Ana,
  from a modal that still shows her closing open, deletes its transaction and gets no
  error.
\<close>

theorem super_admin_adds_to_finalized_closing:
  "closing_is_finalized db_final 10
   \<and> map total_amount (closings db_final) = [1000]
   \<and> fst (click_add_transaction (Some 9) db_final modal_stale 73 6 None 500 ''Pix'') = None
   \<and> map total_amount
         (closings (snd (click_add_transaction (Some 9) db_final modal_stale 73 6 None 500 ''Pix'')))
       = [2000]
   \<and> fst (click_delete_transaction (Some 1) db_final modal_stale True 71) = None"
  by (simp add: click_add_transaction_def click_delete_transaction_def deleteTransaction_def
        updateTotal_def delete_transactions_def AddTransactionModal_handleSubmit_def
        insert_transaction_def select_transactions_def update_closings_def
        transactions_policies_def closings_policies_def rls_defs example_defs
        closing_is_finalized_def closing_by_id_def Let_def)

text \<open>
  C6, amended.  For a finalized closing: a modal that shows it as finalized renders
  neither the add form nor a delete button, so neither call starts; and whatever the
  modal shows, a call by a caller who is not a super admin leaves the whole store as
  it was: the add is rejected, by the insert policy with a row-level-security error
  when the amount fits the column and with a numeric overflow when it does not; the
  delete reports no error and changes nothing.
\<close>

theorem finalized_closing_keeps_total:
  "(is_finalized (m_closing m) \<longrightarrow>
      click_add_transaction u db m new_id now appointmentId amount paymentMethod
        = (Some ControlNotRendered, db)
      \<and> click_delete_transaction u db m confirm transactionId = (Some ControlNotRendered, db))
   \<and> (list_all (\<lambda>c. c_id c = c_id (m_closing m) \<longrightarrow> is_finalized c) (closings db)
        \<and> \<not> is_super_admin db u \<longrightarrow>
      AddTransactionModal_handleSubmit u db new_id now (c_id (m_closing m))
          appointmentId amount paymentMethod
        = (Some (if numeric_10_2 amount then RlsViolation else NumericOverflow), db)
      \<and> deleteTransaction u db m confirm transactionId = (None, db))"
proof -
  have ui: "is_finalized (m_closing m) \<Longrightarrow>
      click_add_transaction u db m new_id now appointmentId amount paymentMethod
        = (Some ControlNotRendered, db)
      \<and> click_delete_transaction u db m confirm transactionId = (Some ControlNotRendered, db)"
    by (simp add: click_add_transaction_def click_delete_transaction_def)
  have store: "AddTransactionModal_handleSubmit u db new_id now (c_id (m_closing m))
          appointmentId amount paymentMethod
        = (Some (if numeric_10_2 amount then RlsViolation else NumericOverflow), db)
      \<and> deleteTransaction u db m confirm transactionId = (None, db)"
    if "list_all (\<lambda>c. c_id c = c_id (m_closing m) \<longrightarrow> is_finalized c) (closings db)"
       "\<not> is_super_admin db u"
    using that
    by (simp add: AddTransactionModal_handleSubmit_def insert_transaction_finalized
          deleteTransaction_def delete_transactions_noop updateTotal_finalized)
  show ?thesis using ui store by blast
qed

theorem finalized_closing_keeps_total_witness:
  "is_finalized (m_closing modal_final)
   \<and> click_add_transaction (Some 1) db_final modal_final 73 6 None 500 ''Pix''
       = (Some ControlNotRendered, db_final)
   \<and> click_delete_transaction (Some 1) db_final modal_final True 71
       = (Some ControlNotRendered, db_final)
   \<and> closing_is_finalized db_final 10
   \<and> \<not> is_super_admin db_final (Some 1)
   \<and> AddTransactionModal_handleSubmit (Some 1) db_final 73 6 10 None 500 ''Pix''
       = (Some RlsViolation, db_final)
   \<and> AddTransactionModal_handleSubmit (Some 1) db_final 73 6 10 None 10000000000 ''Pix''
       = (Some NumericOverflow, db_final)
   \<and> deleteTransaction (Some 1) db_final modal_stale True 71 = (None, db_final)"
proof -
  have shown: "is_finalized (m_closing modal_final)"
    by (simp add: example_defs)
  have fin: "list_all (\<lambda>c. c_id c = c_id (m_closing modal_stale) \<longrightarrow> is_finalized c)
               (closings db_final)"
    by (simp add: example_defs)
  have user: "\<not> is_super_admin db_final (Some 1)"
    by (simp add: is_super_admin_def example_defs)
  have cid: "c_id (m_closing modal_stale) = 10"
    by (simp add: example_defs)
  have fin10: "closing_is_finalized db_final 10"
    by (simp add: closing_is_finalized_def closing_by_id_def example_defs)
  from finalized_closing_keeps_total
         [of modal_final "Some 1" db_final 73 6 None 500 "''Pix''" True 71]
       finalized_closing_keeps_total
         [of modal_stale "Some 1" db_final 73 6 None 500 "''Pix''" True 71]
       finalized_closing_keeps_total
         [of modal_stale "Some 1" db_final 73 6 None 10000000000 "''Pix''" True 71]
  show ?thesis
    using shown fin user fin10 by (simp add: cid numeric_10_2_def)
qed

subsection \<open>The life of a closing\<close>

text \<open>
  C7.  There is at most one closing per professional and date: the property holds in
  the empty store and every action keeps it.  \<open>createClosing\<close> for a professional
  with no closing of that date inserts the row with \<open>total_amount = 0\<close>,
  \<open>is_finalized = false\<close> and no \<open>finalized_at\<close>.  When the professional has a closing
  of that date, the attempt is refused and the store stays as it was: by the client's
  own look-up, or, were the look-up to return several rows, by the uniqueness
  constraint.
\<close>

theorem one_closing_per_professional_and_date:
  "unique_closings empty_database
   \<and> (unique_closings db \<longrightarrow> unique_closings (run as db))
   \<and> ((uid, today) \<notin> set (map (\<lambda>c. (c_professional_id c, c_closing_date c)) (closings db))
        \<and> new_id \<notin> set (map c_id (closings db)) \<and> uid \<in> set (map p_id (profiles db)) \<longrightarrow>
      createClosing uid db new_id today =
        (None, db\<lparr>closings := closings db @
           [\<lparr>c_id = new_id, c_professional_id = uid, c_closing_date = today,
             total_amount = 0, is_finalized = False, finalized_at = None\<rparr>]\<rparr>))
   \<and> ((uid, today) \<in> set (map (\<lambda>c. (c_professional_id c, c_closing_date c)) (closings db)) \<longrightarrow>
      snd (createClosing uid db new_id today) = db
      \<and> (fst (createClosing uid db new_id today) = Some DuplicateClosing
          \<or> fst (createClosing uid db new_id today) = Some UniqueViolation)
      \<and> (unique_closings db \<longrightarrow>
           createClosing uid db new_id today = (Some DuplicateClosing, db)))"
proof -
  have "unique_closings empty_database"
    by (simp add: unique_closings_def empty_database_def)
  then show ?thesis
    using run_keeps_unique_closings [of db as]
      createClosing_new [of uid today db new_id]
      createClosing_second [of uid today db new_id]
      createClosing_duplicate [of uid today db new_id]
    by blast
qed

theorem one_closing_per_professional_and_date_witness:
  "unique_closings db_open
   \<and> unique_closings (run [CreateClosing 1 11 100, CreateClosing 2 11 100, CreateClosing 2 12 100] db_open)
   \<and> createClosing 2 db_open 11 100 =
        (None, db_open\<lparr>closings := closings db_open @
           [\<lparr>c_id = 11, c_professional_id = 2, c_closing_date = 100,
             total_amount = 0, is_finalized = False, finalized_at = None\<rparr>]\<rparr>)
   \<and> createClosing 1 db_open 11 100 = (Some DuplicateClosing, db_open)"
proof -
  have u: "unique_closings db_open"
    by (simp add: unique_closings_def example_defs)
  have free: "(2, 100) \<notin> set (map (\<lambda>c. (c_professional_id c, c_closing_date c)) (closings db_open))"
             "11 \<notin> set (map c_id (closings db_open))" "2 \<in> set (map p_id (profiles db_open))"
    by (simp_all add: example_defs)
  have taken: "(1, 100) \<in> set (map (\<lambda>c. (c_professional_id c, c_closing_date c)) (closings db_open))"
    by (simp add: example_defs)
  from one_closing_per_professional_and_date
         [of db_open "[CreateClosing 1 11 100, CreateClosing 2 11 100, CreateClosing 2 12 100]"
             2 100 11]
       one_closing_per_professional_and_date [of db_open "[]" 1 100 11]
  show ?thesis
    using u free taken by (simp del: run.simps)
qed

text \<open>
  C8.  \<open>finalizeClosing\<close>, confirmed by the owner of an open closing or by a super
  admin, sets \<open>is_finalized\<close> and stamps \<open>finalized_at\<close> with the time of the call.
  A closing that is finalized stays so through every sequence of actions, whatever
  their callers, inputs and page states.
\<close>

theorem finalize_is_one_way:
  "(closing_by_id db (c_id (m_closing m)) = Some c \<and> \<not> is_finalized c
      \<and> may_update_closing db u c \<longrightarrow>
      fst (finalizeClosing u db m True now) = None
      \<and> closing_by_id (snd (finalizeClosing u db m True now)) (c_id (m_closing m))
          = Some (c\<lparr>is_finalized := True, finalized_at := Some now\<rparr>)
      \<and> closing_is_finalized (snd (finalizeClosing u db m True now)) (c_id (m_closing m)))
   \<and> (closing_is_finalized db cid \<longrightarrow> closing_is_finalized (run as db) cid)"
proof -
  have set: "closing_by_id (snd (finalizeClosing u db m True now)) (c_id (m_closing m))
          = Some (c\<lparr>is_finalized := True, finalized_at := Some now\<rparr>)"
    if "closing_by_id db (c_id (m_closing m)) = Some c" "may_update_closing db u c"
  proof -
    have "c_id c = c_id (m_closing m)"
      using that(1) by (auto simp: closing_by_id_def find_Some_iff)
    then show ?thesis
      using that by (simp add: finalizeClosing_eq closing_by_id_def find_id_map)
  qed
  have ok: "fst (finalizeClosing u db m True now) = None"
    by (simp add: finalizeClosing_eq)
  show ?thesis
    using set ok run_keeps_finalized [of db cid as]
    by (auto simp: closing_is_finalized_def)
qed

theorem finalize_is_one_way_witness:
  "closing_by_id db_two (c_id (m_closing modal_two)) = Some closing_two
   \<and> \<not> is_finalized closing_two
   \<and> may_update_closing db_two (Some 1) closing_two
   \<and> fst (finalizeClosing (Some 1) db_two modal_two True 7) = None
   \<and> closing_by_id (snd (finalizeClosing (Some 1) db_two modal_two True 7)) 10
       = Some (closing_two\<lparr>is_finalized := True, finalized_at := Some 7\<rparr>)
   \<and> closing_is_finalized db_final 10
   \<and> closing_is_finalized
        (run [AddTransaction (Some 9) 73 6 10 None 500 ''Pix'',
              DeleteTransaction (Some 9) modal_stale True 71,
              FinalizeClosing (Some 9) modal_stale True 8,
              CreateClosing 1 11 100] db_final) 10"
proof -
  have h1: "closing_by_id db_two (c_id (m_closing modal_two)) = Some closing_two"
    by (simp add: closing_by_id_def example_defs)
  have h2: "\<not> is_finalized closing_two"
    by (simp add: example_defs)
  have h3: "may_update_closing db_two (Some 1) closing_two"
    by (simp add: may_update_closing_def example_defs)
  have h4: "closing_is_finalized db_final 10"
    by (simp add: closing_is_finalized_def closing_by_id_def example_defs)
  have cid: "c_id (m_closing modal_two) = 10"
    by (simp add: example_defs)
  from finalize_is_one_way
         [of db_two modal_two closing_two "Some 1" 7 10 "[]"]
       finalize_is_one_way
         [of db_final modal_stale closing_final "Some 9" 8 10
             "[AddTransaction (Some 9) 73 6 10 None 500 ''Pix'',
               DeleteTransaction (Some 9) modal_stale True 71,
               FinalizeClosing (Some 9) modal_stale True 8,
               CreateClosing 1 11 100]"]
  show ?thesis
    using h1 h2 h3 h4 by (simp add: cid del: run.simps)
qed

subsection \<open>Booking appointments\<close>

lemma AddTransaction_appointments:
  "appointments (snd (AddTransactionModal_handleSubmit u db new_id now cid ap amount pm)) = appointments db"
proof (cases "insert_transaction u db
             \<lparr>t_id = new_id, t_closing_id = cid, t_appointment_id = ap,
              t_amount = amount, t_payment_method = pm, t_created_at = now\<rparr>")
  case (Inl e)
  then show ?thesis
    by (simp add: AddTransactionModal_handleSubmit_def)
next
  case (Inr db1)
  then show ?thesis
    by (auto simp: AddTransactionModal_handleSubmit_def Let_def update_total_eq
          dest!: insert_transaction_cases)
qed

lemma DeleteTransaction_appointments:
  "appointments (snd (deleteTransaction u db m confirm tid)) = appointments db"
  by (cases confirm)
     (auto simp: deleteTransaction_def delete_transactions_noop updateTotal_eq)

lemma FinalizeClosing_appointments:
  "appointments (snd (finalizeClosing u db m confirm now)) = appointments db"
  by (cases confirm) (auto simp: finalizeClosing_eq finalizeClosing_cancel)

lemma CreateClosing_appointments:
  "appointments (snd (createClosing uid db new_id today)) = appointments db"
  by (auto simp: createClosing_def insert_closing_def split: option.splits)

lemma CreateAppointment_appointments:
  "appointments (snd (CreateAppointmentModal_handleSubmit uid db new_id conflict f)) = appointments db
   \<or> (\<exists>a. appointments (snd (CreateAppointmentModal_handleSubmit uid db new_id conflict f))
             = appointments db @ [a]
          \<and> slot a \<notin> set (map slot (appointments db)))"
  by (auto simp: CreateAppointmentModal_handleSubmit_def insert_appointment_def)

lemma perform_appointments:
  "\<exists>g extra. appointments (perform a db) = map g (appointments db) @ extra
     \<and> (\<forall>x. slot (g x) = slot x)
     \<and> (extra = [] \<or> (\<exists>x. extra = [x] \<and> slot x \<notin> set (map slot (appointments db))))"
proof -
  have same: ?thesis if "appointments (perform a db) = appointments db"
    using that by (intro exI[of _ id] exI[of _ "[]"]) simp
  have new: ?thesis
    if "appointments (perform a db) = appointments db @ [x]"
       "slot x \<notin> set (map slot (appointments db))" for x
    using that by (intro exI[of _ id] exI[of _ "[x]"]) simp
  show ?thesis
  proof (cases a)
    case (SignUp r e n)
    then show ?thesis using same by (simp add: SignUp_appointments)
  next
    case (CreateAppointment uid nid conflict f)
    then show ?thesis
      using CreateAppointment_appointments [of uid db nid conflict f] same new by auto
  next
    case (UpdateStatus u ap st)
    have "appointments (perform a db)
            = map (\<lambda>x. if a_id x = a_id ap \<and> (Some (a_professional_id x) = u \<or> is_super_admin db u)
                       then x\<lparr>a_status := st\<rparr> else x) (appointments db) @ []"
      using UpdateStatus by (simp add: updateStatus_eq)
    then show ?thesis
      by (intro exI[of _ "\<lambda>x. if a_id x = a_id ap \<and> (Some (a_professional_id x) = u \<or> is_super_admin db u)
                       then x\<lparr>a_status := st\<rparr> else x"] exI[of _ "[]"]) (simp add: slot_def)
  next
    case (CreateClosing uid nid today)
    then show ?thesis using same by (simp add: CreateClosing_appointments)
  next
    case (AddTransaction u nid now cid ap amount pm)
    then show ?thesis using same by (simp add: AddTransaction_appointments)
  next
    case (DeleteTransaction u m confirm tid)
    then show ?thesis using same by (simp add: DeleteTransaction_appointments)
  next
    case (FinalizeClosing u m confirm now)
    then show ?thesis using same by (simp add: FinalizeClosing_appointments)
  next
    case (OtherPages ps pts prs)
    then show ?thesis using same by simp
  qed
qed

lemma perform_keeps_unique_slots:
  assumes "unique_slots db"
  shows "unique_slots (perform a db)"
proof -
  obtain g extra where shape: "appointments (perform a db) = map g (appointments db) @ extra"
    and g: "\<And>x. slot (g x) = slot x"
    and extra: "extra = [] \<or> (\<exists>x. extra = [x] \<and> slot x \<notin> set (map slot (appointments db)))"
    using perform_appointments [of a db] by auto
  have keys: "map slot (map g (appointments db)) = map slot (appointments db)"
    using g by simp
  show ?thesis
    using assms extra unfolding unique_slots_def shape map_append keys
    by (force simp: image_iff)
qed

lemma run_keeps_unique_slots:
  "unique_slots db \<Longrightarrow> unique_slots (run as db)"
  by (induction as arbitrary: db) (auto simp: perform_keeps_unique_slots)

text \<open>A caller who books for a professional sees that professional's appointments.\<close>

lemma booked_rows_visible:
  assumes "uid = professionalId f \<or> is_super_admin db (Some uid)"
  shows "select_appointments (Some uid) db
           (\<lambda>a. a_professional_id a = professionalId f \<and> a_appointment_date a = appointmentDate f
               \<and> a_appointment_time a = appointmentTime f \<and> a_status a \<noteq> cancelled)
         = filter (\<lambda>a. slot a = (professionalId f, appointmentDate f, appointmentTime f)
                       \<and> a_status a \<noteq> cancelled) (appointments db)"
  using assms
  by (auto simp: select_appointments_def rls_select_def appointments_select_iff slot_def
        intro: filter_cong)

lemma checkConflict_iff:
  assumes "uid = professionalId f \<or> is_super_admin db (Some uid)"
  shows "checkConflict (Some uid) db f
           = list_ex (\<lambda>a. slot a = (professionalId f, appointmentDate f, appointmentTime f)
                          \<and> a_status a \<noteq> cancelled) (appointments db)"
  by (simp add: checkConflict_def booked_rows_visible [OF assms] filter_empty_conv list_ex_iff)

lemma create_appointment_conflict:
  assumes "list_ex (\<lambda>a. slot a = (professionalId f, appointmentDate f, appointmentTime f)
                          \<and> a_status a \<noteq> cancelled) (appointments db)"
      and "uid = professionalId f \<or> is_super_admin db (Some uid)"
  shows "create_appointment uid db new_id f = (Some SlotConflict, db)"
  using assms
  by (simp add: create_appointment_def checkConflict_iff CreateAppointmentModal_handleSubmit_def)

lemma handleSubmit_taken_slot:
  assumes "(professionalId f, appointmentDate f, appointmentTime f) \<in> set (map slot (appointments db))"
  shows "snd (CreateAppointmentModal_handleSubmit uid db new_id conflict f) = db
         \<and> fst (CreateAppointmentModal_handleSubmit uid db new_id conflict f) \<noteq> None"
  using assms
  by (auto simp: CreateAppointmentModal_handleSubmit_def insert_appointment_def slot_def)

lemma create_appointment_free_slot:
  assumes "(professionalId f, appointmentDate f, appointmentTime f) \<notin> set (map slot (appointments db))"
      and "uid = professionalId f \<or> is_super_admin db (Some uid)"
      and "new_id \<notin> set (map a_id (appointments db))"
      and "patientId f \<in> set (patients db)" and "procedureId f \<in> set (procedures db)"
      and "professionalId f \<in> set (map p_id (profiles db))"
      and "uid \<in> set (map p_id (profiles db))"
  shows "create_appointment uid db new_id f =
           (None, db\<lparr>appointments := appointments db @
              [\<lparr>a_id = new_id, a_patient_id = patientId f, a_procedure_id = procedureId f,
                a_professional_id = professionalId f, a_appointment_date = appointmentDate f,
                a_appointment_time = appointmentTime f, a_status = scheduled,
                a_created_by = Some uid\<rparr>]\<rparr>)"
proof -
  have "\<not> checkConflict (Some uid) db f"
    using assms(1,2) by (force simp: checkConflict_iff list_ex_iff image_iff)
  then show ?thesis
    using assms
    by (auto simp: create_appointment_def CreateAppointmentModal_handleSubmit_def
          insert_appointment_def appointments_insert_check_iff slot_def)
qed

lemma create_appointment_cancelled_slot:
  assumes "(professionalId f, appointmentDate f, appointmentTime f) \<in> set (map slot (appointments db))"
      and "list_all (\<lambda>a. slot a = (professionalId f, appointmentDate f, appointmentTime f)
                        \<longrightarrow> a_status a = cancelled) (appointments db)"
      and "uid = professionalId f \<or> is_super_admin db (Some uid)"
  shows "checkConflict (Some uid) db f = False
         \<and> create_appointment uid db new_id f = (Some UniqueViolation, db)"
proof -
  have no: "\<not> checkConflict (Some uid) db f"
    using assms(2,3) by (auto simp: checkConflict_iff list_ex_iff list_all_iff)
  then show ?thesis
    using assms(1,3)
    by (auto simp: create_appointment_def CreateAppointmentModal_handleSubmit_def
          insert_appointment_def appointments_insert_check_iff slot_def)
qed

text \<open>
  C3.  When the store holds an appointment of the professional at the date and time
  of the form whose status is not \<open>cancelled\<close>, the submit that follows the conflict
  check is refused with the conflict message and inserts nothing; and whatever the
  value of the conflict flag (the check may be out of date), a submit for a slot that
  is taken returns an error and leaves the store as it was.  Appointments of other
  professionals play no part: when the professional has no appointment at that date
  and time, the booking goes through and adds the row as \<open>scheduled\<close>, whoever else is
  booked then.  The caller books for herself or is a super admin, as the page allows.
\<close>

theorem booking_conflict_is_per_professional:
  "(list_ex (\<lambda>a. slot a = (professionalId f, appointmentDate f, appointmentTime f)
                 \<and> a_status a \<noteq> cancelled) (appointments db)
      \<and> (uid = professionalId f \<or> is_super_admin db (Some uid)) \<longrightarrow>
      create_appointment uid db new_id f = (Some SlotConflict, db))
   \<and> ((professionalId f, appointmentDate f, appointmentTime f) \<in> set (map slot (appointments db)) \<longrightarrow>
      snd (CreateAppointmentModal_handleSubmit uid db new_id conflict f) = db
      \<and> fst (CreateAppointmentModal_handleSubmit uid db new_id conflict f) \<noteq> None)
   \<and> ((professionalId f, appointmentDate f, appointmentTime f) \<notin> set (map slot (appointments db))
      \<and> (uid = professionalId f \<or> is_super_admin db (Some uid))
      \<and> new_id \<notin> set (map a_id (appointments db))
      \<and> patientId f \<in> set (patients db) \<and> procedureId f \<in> set (procedures db)
      \<and> professionalId f \<in> set (map p_id (profiles db))
      \<and> uid \<in> set (map p_id (profiles db)) \<longrightarrow>
      create_appointment uid db new_id f =
        (None, db\<lparr>appointments := appointments db @
           [\<lparr>a_id = new_id, a_patient_id = patientId f, a_procedure_id = procedureId f,
             a_professional_id = professionalId f, a_appointment_date = appointmentDate f,
             a_appointment_time = appointmentTime f, a_status = scheduled,
             a_created_by = Some uid\<rparr>]\<rparr>))"
  using create_appointment_conflict [of f db uid new_id]
    handleSubmit_taken_slot [of f db uid new_id conflict]
    create_appointment_free_slot [of f db uid new_id]
  by blast

theorem booking_conflict_is_per_professional_witness:
  "list_ex (\<lambda>a. slot a = (1, 200, 540) \<and> a_status a \<noteq> cancelled) (appointments db_agenda)
   \<and> create_appointment 1 db_agenda 31 form_ana = (Some SlotConflict, db_agenda)
   \<and> CreateAppointmentModal_handleSubmit 1 db_agenda 31 False form_ana
       = (Some UniqueViolation, db_agenda)
   \<and> map a_appointment_date (appointments db_agenda) = [appointmentDate form_bia]
   \<and> map a_appointment_time (appointments db_agenda) = [appointmentTime form_bia]
   \<and> create_appointment 2 db_agenda 31 form_bia =
        (None, db_agenda\<lparr>appointments := appointments db_agenda @
           [\<lparr>a_id = 31, a_patient_id = 50, a_procedure_id = 60,
             a_professional_id = 2, a_appointment_date = 200,
             a_appointment_time = 540, a_status = scheduled,
             a_created_by = Some 2\<rparr>]\<rparr>)"
proof -
  have fa: "professionalId form_ana = 1" "appointmentDate form_ana = 200"
           "appointmentTime form_ana = 540" "patientId form_ana = 50" "procedureId form_ana = 60"
    by (simp_all add: example_defs)
  have fb: "professionalId form_bia = 2" "appointmentDate form_bia = 200"
           "appointmentTime form_bia = 540" "patientId form_bia = 50" "procedureId form_bia = 60"
    by (simp_all add: example_defs)
  have taken: "list_ex (\<lambda>a. slot a = (1, 200, 540) \<and> a_status a \<noteq> cancelled) (appointments db_agenda)"
    by (simp add: slot_def example_defs)
  have slots: "map slot (appointments db_agenda) = [(1, 200, 540)]"
    by (simp add: slot_def example_defs)
  have ids: "map a_id (appointments db_agenda) = [30]" "patients db_agenda = [50]"
            "procedures db_agenda = [60]" "map p_id (profiles db_agenda) = [1, 2, 9]"
    by (simp_all add: example_defs)
  have stale: "CreateAppointmentModal_handleSubmit 1 db_agenda 31 False form_ana
       = (Some UniqueViolation, db_agenda)"
    by (simp add: CreateAppointmentModal_handleSubmit_def insert_appointment_def
          appointments_insert_check_iff slots slot_def fa)
  have times: "map a_appointment_date (appointments db_agenda) = [200]"
             "map a_appointment_time (appointments db_agenda) = [540]"
    by (simp_all add: example_defs)
  from booking_conflict_is_per_professional [of form_ana db_agenda 1 31 False]
       booking_conflict_is_per_professional [of form_bia db_agenda 2 31 False]
  show ?thesis
    using taken stale by (simp add: fa fb slots ids times)
qed

text \<open>
  C4.  There is at most one appointment per professional, date and time, whatever the
  statuses: the property holds in the empty store and every action keeps it.  In
  particular, when the appointments stored for the slot of the form are all cancelled,
  the conflict check finds nothing and the insert is refused by the uniqueness
  constraint, the store staying as it was.
\<close>

theorem one_appointment_per_slot:
  "unique_slots empty_database
   \<and> (unique_slots db \<longrightarrow> unique_slots (run as db))
   \<and> ((professionalId f, appointmentDate f, appointmentTime f) \<in> set (map slot (appointments db))
      \<and> list_all (\<lambda>a. slot a = (professionalId f, appointmentDate f, appointmentTime f)
                      \<longrightarrow> a_status a = cancelled) (appointments db)
      \<and> (uid = professionalId f \<or> is_super_admin db (Some uid)) \<longrightarrow>
      checkConflict (Some uid) db f = False
      \<and> create_appointment uid db new_id f = (Some UniqueViolation, db))"
proof -
  have "unique_slots empty_database"
    by (simp add: unique_slots_def empty_database_def)
  then show ?thesis
    using run_keeps_unique_slots [of db as]
      create_appointment_cancelled_slot [of f db uid new_id]
    by blast
qed

theorem one_appointment_per_slot_witness:
  "unique_slots db_cancelled
   \<and> unique_slots (run [CreateAppointment 1 31 False form_ana,
                         UpdateStatus (Some 1) appt_ana confirmed,
                         CreateAppointment 2 32 False form_bia] db_cancelled)
   \<and> map a_status (appointments db_cancelled) = [cancelled]
   \<and> checkConflict (Some 1) db_cancelled form_ana = False
   \<and> create_appointment 1 db_cancelled 31 form_ana = (Some UniqueViolation, db_cancelled)"
proof -
  have fa: "professionalId form_ana = 1" "appointmentDate form_ana = 200"
           "appointmentTime form_ana = 540"
    by (simp_all add: example_defs)
  have u: "unique_slots db_cancelled"
    by (simp add: unique_slots_def slot_def example_defs)
  have slots: "map slot (appointments db_cancelled) = [(1, 200, 540)]"
    by (simp add: slot_def example_defs)
  have all: "list_all (\<lambda>a. slot a = (1, 200, 540) \<longrightarrow> a_status a = cancelled)
               (appointments db_cancelled)"
    by (simp add: slot_def example_defs)
  have st: "map a_status (appointments db_cancelled) = [cancelled]"
    by (simp add: example_defs)
  from one_appointment_per_slot
         [of db_cancelled "[CreateAppointment 1 31 False form_ana,
                            UpdateStatus (Some 1) appt_ana confirmed,
                            CreateAppointment 2 32 False form_bia]" form_ana 1 31]
  show ?thesis
    using u all st by (simp add: fa slots del: run.simps)
qed

subsection \<open>Appointment status\<close>

lemma status_buttons_cases:
  "status_buttons ap =
     (case a_status ap of
        scheduled \<Rightarrow> [confirmed, completed, cancelled]
      | confirmed \<Rightarrow> [completed, cancelled]
      | completed \<Rightarrow> []
      | cancelled \<Rightarrow> [])"
  by (cases "a_status ap") (simp_all add: status_buttons_def)

text \<open>
  C5, as the claim states it, fails, in two ways.  From \<open>scheduled\<close> the only next
  states should be \<open>confirmed\<close> and \<open>cancelled\<close>; the modal renders the button that
  completes an appointment for every status but \<open>completed\<close> and \<open>cancelled\<close>, and
  Ana completes her scheduled appointment in one step.  From \<open>completed\<close> there
  should be no transition; \<open>updateStatus\<close> does not look at the stored status, and
  from a modal that still shows the appointment as scheduled, Ana takes her completed
  appointment back to \<open>confirmed\<close>.
\<close>

theorem status_update_breaks_claimed_order:
  "a_status appt_ana = scheduled
   \<and> map a_status (appointments db_agenda) = [scheduled]
   \<and> fst (click_status_button (Some 1) db_agenda appt_ana completed) = None
   \<and> map a_status (appointments (snd (click_status_button (Some 1) db_agenda appt_ana completed)))
       = [completed]
   \<and> map a_id (appointments db_completed) = [a_id appt_ana]
   \<and> map a_status (appointments db_completed) = [completed]
   \<and> fst (click_status_button (Some 1) db_completed appt_ana confirmed) = None
   \<and> map a_status (appointments (snd (click_status_button (Some 1) db_completed appt_ana confirmed)))
       = [confirmed]"
  by (simp add: click_status_button_def status_buttons_def updateStatus_def
        update_appointments_def appointments_policies_def rls_defs example_defs Let_def)

text \<open>
  C5, amended.  For the appointment that the details modal shows: at \<open>scheduled\<close> the
  buttons lead to \<open>confirmed\<close>, \<open>completed\<close> and \<open>cancelled\<close>; at \<open>confirmed\<close> to
  \<open>completed\<close> and \<open>cancelled\<close>; at \<open>completed\<close> and \<open>cancelled\<close> there is no button.
  When the stored status of that appointment is the one shown, a click leaves every
  row as it was or moves it along one of these five transitions: from \<open>scheduled\<close>
  to \<open>confirmed\<close>, \<open>completed\<close> or \<open>cancelled\<close>, from \<open>confirmed\<close> to \<open>completed\<close> or
  \<open>cancelled\<close>.
\<close>

theorem status_buttons_move_forward:
  "(a_status ap = scheduled \<longrightarrow> status_buttons ap = [confirmed, completed, cancelled])
   \<and> (a_status ap = confirmed \<longrightarrow> status_buttons ap = [completed, cancelled])
   \<and> (a_status ap = completed \<or> a_status ap = cancelled \<longrightarrow>
        click_status_button u db ap newStatus = (Some ControlNotRendered, db))
   \<and> (list_all (\<lambda>a. a_id a = a_id ap \<longrightarrow> a_status a = a_status ap) (appointments db) \<longrightarrow>
        list_all2
          (\<lambda>a a'. a' = a
             \<or> (a' = a\<lparr>a_status := newStatus\<rparr>
                \<and> (a_status a = scheduled
                      \<and> (newStatus = confirmed \<or> newStatus = completed \<or> newStatus = cancelled)
                    \<or> a_status a = confirmed
                      \<and> (newStatus = completed \<or> newStatus = cancelled))))
          (appointments db)
          (appointments (snd (click_status_button u db ap newStatus))))"
proof -
  have buttons: "(a_status ap = scheduled \<longrightarrow> status_buttons ap = [confirmed, completed, cancelled])
   \<and> (a_status ap = confirmed \<longrightarrow> status_buttons ap = [completed, cancelled])"
    by (simp add: status_buttons_cases)
  have none: "a_status ap = completed \<or> a_status ap = cancelled \<Longrightarrow>
        click_status_button u db ap newStatus = (Some ControlNotRendered, db)"
    by (auto simp: click_status_button_def status_buttons_cases)
  have step: "list_all2
          (\<lambda>a a'. a' = a
             \<or> (a' = a\<lparr>a_status := newStatus\<rparr>
                \<and> (a_status a = scheduled
                      \<and> (newStatus = confirmed \<or> newStatus = completed \<or> newStatus = cancelled)
                    \<or> a_status a = confirmed
                      \<and> (newStatus = completed \<or> newStatus = cancelled))))
          (appointments db)
          (appointments (snd (click_status_button u db ap newStatus)))"
    if fresh: "list_all (\<lambda>a. a_id a = a_id ap \<longrightarrow> a_status a = a_status ap) (appointments db)"
  proof (cases "newStatus \<in> set (status_buttons ap)")
    case False
    then show ?thesis
      by (simp add: click_status_button_def list_all2_same)
  next
    case True
    then have allowed: "a_status ap = scheduled
                      \<and> (newStatus = confirmed \<or> newStatus = completed \<or> newStatus = cancelled)
                    \<or> a_status ap = confirmed
                      \<and> (newStatus = completed \<or> newStatus = cancelled)"
      by (cases "a_status ap") (auto simp: status_buttons_cases)
    show ?thesis
      using True fresh allowed
      by (auto simp: click_status_button_def updateStatus_eq list_all2_map2 list_all2_same
            list_all_iff)
  qed
  show ?thesis using buttons none step by blast
qed

theorem status_buttons_move_forward_witness:
  "a_status appt_ana = scheduled
   \<and> status_buttons appt_ana = [confirmed, completed, cancelled]
   \<and> status_buttons (appt_ana\<lparr>a_status := confirmed\<rparr>) = [completed, cancelled]
   \<and> click_status_button (Some 1) db_cancelled (appt_ana\<lparr>a_status := cancelled\<rparr>) scheduled
       = (Some ControlNotRendered, db_cancelled)
   \<and> list_all (\<lambda>a. a_id a = a_id appt_ana \<longrightarrow> a_status a = a_status appt_ana)
        (appointments db_agenda)
   \<and> map a_status (appointments (snd (click_status_button (Some 1) db_agenda appt_ana confirmed)))
       = [confirmed]
   \<and> list_all2
          (\<lambda>a a'. a' = a
             \<or> (a' = a\<lparr>a_status := confirmed\<rparr>
                \<and> (a_status a = scheduled
                      \<and> (confirmed = confirmed \<or> confirmed = completed \<or> confirmed = cancelled)
                    \<or> a_status a = confirmed
                      \<and> (confirmed = completed \<or> confirmed = cancelled))))
          (appointments db_agenda)
          (appointments (snd (click_status_button (Some 1) db_agenda appt_ana confirmed)))"
proof -
  have st: "a_status appt_ana = scheduled"
    by (simp add: example_defs)
  have st2: "a_status (appt_ana\<lparr>a_status := confirmed\<rparr>) = confirmed"
            "a_status (appt_ana\<lparr>a_status := cancelled\<rparr>) = cancelled"
    by simp_all
  have fresh: "list_all (\<lambda>a. a_id a = a_id appt_ana \<longrightarrow> a_status a = a_status appt_ana)
        (appointments db_agenda)"
    by (simp add: example_defs)
  have moved: "map a_status (appointments (snd (click_status_button (Some 1) db_agenda appt_ana confirmed)))
       = [confirmed]"
    by (simp add: click_status_button_def status_buttons_def updateStatus_def
          update_appointments_def appointments_policies_def rls_defs example_defs Let_def)
  from status_buttons_move_forward [of appt_ana "Some 1" db_agenda confirmed]
       status_buttons_move_forward [of "appt_ana\<lparr>a_status := confirmed\<rparr>" "Some 1" db_agenda confirmed]
       status_buttons_move_forward [of "appt_ana\<lparr>a_status := cancelled\<rparr>" "Some 1" db_cancelled scheduled]
  show ?thesis
    using st st2 fresh moved by simp
qed

subsection \<open>Sign-up\<close>

text \<open>The profile that a successful sign-up adds.\<close>

lemma signUp_role:
  assumes "signUp db (SignedUp (Some uid) session) email fullName = (None, db')"
  shows "profiles db' = profiles db @
           [\<lparr>p_id = uid, p_email = email, p_full_name = fullName,
             p_role = (if session \<and> profiles db \<noteq> [] then user else super_admin),
             p_is_active = True\<rparr>]"
  using assms
  by (cases session)
     (auto simp: signUp_def insert_profile_def Let_def rls_select_def profiles_select_iff
        split: if_splits)

text \<open>
  C9.  The first profile should get \<open>super_admin\<close> and every later one \<open>user\<close>.
  \<open>signUp\<close> decides by counting the profiles that its request can read.  When the
  provider returns the new user without a session, the count runs as \<open>anon\<close>, for
  which \<open>profiles\<close> has no \<open>SELECT\<close> policy: it is 0 whatever the table holds, and the
  insert policy, written for \<open>anon\<close> too, lets the row in.  With three profiles
  stored, Eva signs up without a session and becomes a super admin; with a session
  she becomes a user.
\<close>

theorem signup_without_session_grants_super_admin:
  "map p_role (profiles db_open) = [user, user, super_admin]
   \<and> fst (signUp db_open (SignedUp (Some 3) False) ''eva@clinic'' ''Eva'') = None
   \<and> map p_role (profiles (snd (signUp db_open (SignedUp (Some 3) False) ''eva@clinic'' ''Eva'')))
       = [user, user, super_admin, super_admin]
   \<and> map p_role (profiles (snd (signUp db_open (SignedUp (Some 3) True) ''eva@clinic'' ''Eva'')))
       = [user, user, super_admin, user]"
  by (simp add: signUp_def insert_profile_def profiles_policies_def rls_defs example_defs
        Let_def)

end
